theory Spec2Isabelle
  imports Complex_Main "HOL-Library.Sublist"
begin

section \<open>Strings, floats and the library interface\<close>

text \<open>
  A Python \<open>str\<close> is a sequence of Unicode code points, so a string is a list of
  code points and \<open>length\<close> counts what \<open>len\<close> counts. ASCII literals are
  written \<open>ascii ''...''\<close>.
\<close>

type_synonym str = "nat list"

abbreviation ascii :: "string \<Rightarrow> str" where
  "ascii s \<equiv> map of_char s"

text \<open>
  A Python \<open>float\<close> is an IEEE double: a rational of the form \<open>m * 2 ^ e\<close>, or an
  infinity. NaN never arises in this program (no arithmetic is done on prices, and the text
  \<open>nan\<close> cannot reach \<open>float()\<close>). \<open>float('inf')\<close> is \<open>PInf\<close>.
\<close>

datatype pyfloat = NInf | Fin rat | PInf

fun float_le :: "pyfloat \<Rightarrow> pyfloat \<Rightarrow> bool" where
  "float_le NInf _ = True"
| "float_le _ PInf = True"
| "float_le (Fin a) (Fin b) = (a \<le> b)"
| "float_le _ _ = False"

definition float_gt :: "pyfloat \<Rightarrow> pyfloat \<Rightarrow> bool" where
  "float_gt a b = (\<not> float_le a b)"

datatype exn = ValueError | OtherError

text \<open>
  What the program takes from the Python runtime and from \<open>urllib\<close>, and this theory
  does not define: the Unicode tables behind \<open>str.lower\<close>, \<open>str.isdigit\<close> and the
  decimal digits that \<open>float()\<close> accepts, \<open>repr\<close> of a float (what an f-string
  prints) and \<open>urljoin\<close>, which raises \<open>ValueError\<close> on a malformed address
  (\<open>None\<close> here). Every function below that depends on one of them takes the record.
\<close>

record runtime =
  todecimal :: "nat \<Rightarrow> nat option"
  isdigit :: "nat \<Rightarrow> bool"
  lower :: "str \<Rightarrow> str"
  float_repr :: "pyfloat \<Rightarrow> str"
  urljoin :: "str \<Rightarrow> str \<Rightarrow> str option"

text \<open>\<open>Py_UNICODE_ISSPACE\<close>: what \<open>\s\<close> matches in a \<open>str\<close> pattern and what \<open>str.strip\<close> removes.\<close>

definition is_space :: "nat \<Rightarrow> bool" where
  "is_space c \<longleftrightarrow>
     (9 \<le> c \<and> c \<le> 13) \<or> (28 \<le> c \<and> c \<le> 32) \<or> c = 133 \<or> c = 160 \<or> c = 5760 \<or>
     (8192 \<le> c \<and> c \<le> 8202) \<or> c = 8232 \<or> c = 8233 \<or> c = 8239 \<or> c = 8287 \<or> c = 12288"

definition strip :: "str \<Rightarrow> str" where
  "strip s = rev (dropWhile is_space (rev (dropWhile is_space s)))"

subsection \<open>The builtin \<open>float()\<close> on a string\<close>

text \<open>
  The quotient \<open>n / d\<close> of two naturals (\<open>d > 0\<close>) rounded to the nearest integer,
  ties to the even one.
\<close>

definition round_half_even :: "nat \<Rightarrow> nat \<Rightarrow> nat" where
  "round_half_even n d =
     (let f = n div d; r = n mod d
      in if 2 * r < d then f else if d < 2 * r then f + 1 else if even f then f else f + 1)"

fun bit_length :: "nat \<Rightarrow> nat" where
  "bit_length n = (if n = 0 then 0 else Suc (bit_length (n div 2)))"

declare bit_length.simps [simp del]

definition pow2 :: "int \<Rightarrow> rat" where
  "pow2 k = (if 0 \<le> k then 2 ^ nat k else 1 / 2 ^ nat (- k))"

text \<open>\<open>2 ^ k \<le> p / q\<close>, in integer arithmetic.\<close>

definition pow2_le_frac :: "int \<Rightarrow> nat \<Rightarrow> nat \<Rightarrow> bool" where
  "pow2_le_frac k p q = (if 0 \<le> k then 2 ^ nat k * q \<le> p else q \<le> 2 ^ nat (- k) * p)"

text \<open>
  The double nearest to the fraction \<open>p / q\<close> of two naturals (\<open>q > 0\<close>), as the
  correctly rounded \<open>strtod\<close> of CPython gives it: \<open>e\<close> is \<open>\<lfloor>log\<^sub>2 (p / q)\<rfloor>\<close>, not
  below the least exponent \<open>-1022\<close>; the value is rounded to a multiple \<open>m\<close> of
  \<open>2 ^ (e - 52)\<close> (53 bits of precision), ties to even; a result of \<open>2 ^ 1024\<close> or more
  is infinity.
\<close>

definition nearest_double :: "nat \<Rightarrow> nat \<Rightarrow> pyfloat" where
  "nearest_double p q =
     (if p = 0 then Fin 0
      else let d = int (bit_length p) - int (bit_length q);
               e = max (if pow2_le_frac d p q then d else d - 1) (- 1022);
               m = (if e \<le> 52 then round_half_even (p * 2 ^ nat (52 - e)) q
                    else round_half_even p (q * 2 ^ nat (e - 52)))
           in if 1023 < e \<or> (e = 1023 \<and> 2 ^ 53 \<le> m) then PInf
              else Fin (of_nat m * pow2 (e - 52)))"

definition float_neg :: "pyfloat \<Rightarrow> pyfloat" where
  "float_neg x = (case x of NInf \<Rightarrow> PInf | Fin q \<Rightarrow> Fin (- q) | PInf \<Rightarrow> NInf)"

definition is_ascii_digit :: "nat \<Rightarrow> bool" where
  "is_ascii_digit c \<longleftrightarrow> 48 \<le> c \<and> c \<le> 57"

text \<open>
  \<open>_PyUnicode_TransformDecimalAndSpaceToASCII\<close>: code points below 127 stay, other white
  space becomes a space, other decimal digits become ASCII digits, and the first code point
  that is none of these becomes \<open>?\<close> and ends the string.
\<close>

fun transform_decimal :: "(nat \<Rightarrow> nat option) \<Rightarrow> str \<Rightarrow> str" where
  "transform_decimal dec [] = []"
| "transform_decimal dec (c # cs) =
     (if c < 127 then c # transform_decimal dec cs
      else if is_space c then 32 # transform_decimal dec cs
      else (case dec c of
              Some d \<Rightarrow> (48 + d) # transform_decimal dec cs
            | None \<Rightarrow> [63]))"

definition is_c_space :: "nat \<Rightarrow> bool" where
  "is_c_space c \<longleftrightarrow> (9 \<le> c \<and> c \<le> 13) \<or> c = 32"

text \<open>
  An underscore is accepted only between two digits, and is dropped. \<open>prev\<close> is the
  code point before the current one (0 at the start).
\<close>

fun strip_underscores :: "nat \<Rightarrow> str \<Rightarrow> str option" where
  "strip_underscores prev [] = (if prev = 95 then None else Some [])"
| "strip_underscores prev (c # cs) =
     (if c = 95 then
        (if is_ascii_digit prev then strip_underscores c cs else None)
      else if prev = 95 \<and> \<not> is_ascii_digit c then None
      else map_option ((#) c) (strip_underscores c cs))"

fun digits_value :: "str \<Rightarrow> nat \<Rightarrow> nat" where
  "digits_value [] acc = acc"
| "digits_value (c # cs) acc = digits_value cs (10 * acc + (c - 48))"

text \<open>
  The unsigned decimal forms \<open>digits\<close>, \<open>digits.\<close>, \<open>digits.digits\<close> and
  \<open>.digits\<close>, as numerator and denominator. The exponent, \<open>inf\<close> and \<open>nan\<close> forms all contain an ASCII letter,
  and \<open>parse_price\<close> removes every ASCII letter before it converts, so they are left out:
  this is \<open>float()\<close> on strings without ASCII letters.
\<close>

definition parse_decimal :: "str \<Rightarrow> (nat \<times> nat) option" where
  "parse_decimal s =
     (let ip = takeWhile is_ascii_digit s; rest = dropWhile is_ascii_digit s
      in if rest = [] then
           (if ip = [] then None else Some (digits_value ip 0, 1))
         else if hd rest = 46 \<and> list_all is_ascii_digit (tl rest) \<and> (ip \<noteq> [] \<or> tl rest \<noteq> [])
           then Some (digits_value (ip @ tl rest) 0, 10 ^ length (tl rest))
         else None)"

definition parse_signed :: "str \<Rightarrow> pyfloat option" where
  "parse_signed s =
     (case s of
        [] \<Rightarrow> None
      | c # cs \<Rightarrow>
          if c = 45 then map_option (\<lambda>(p, q). float_neg (nearest_double p q)) (parse_decimal cs)
          else if c = 43 then map_option (\<lambda>(p, q). nearest_double p q) (parse_decimal cs)
          else map_option (\<lambda>(p, q). nearest_double p q) (parse_decimal s))"

text \<open>\<open>float(s)\<close>; \<open>Inl ValueError\<close> is the exception.\<close>

definition py_float :: "runtime \<Rightarrow> str \<Rightarrow> exn + pyfloat" where
  "py_float rt s =
     (let a = transform_decimal (todecimal rt) s;
          b = rev (dropWhile is_c_space (rev (dropWhile is_c_space a)))
      in case strip_underscores 0 b of
           None \<Rightarrow> Inl ValueError
         | Some d \<Rightarrow> (case parse_signed d of None \<Rightarrow> Inl ValueError | Some x \<Rightarrow> Inr x))"

section \<open>Price Parser\<close>

text \<open>The character class \<open>[A-Za-z\s\<euro>$\<pounds>RON]\<close> of \<open>re.sub\<close>.\<close>

definition is_currency_char :: "nat \<Rightarrow> bool" where
  "is_currency_char c \<longleftrightarrow>
     (65 \<le> c \<and> c \<le> 90) \<or> (97 \<le> c \<and> c \<le> 122) \<or> is_space c \<or>
     c = 8364 \<or> c = 36 \<or> c = 163 \<or> c = 82 \<or> c = 79 \<or> c = 78"

definition strip_currency :: "str \<Rightarrow> str" where
  "strip_currency s = filter (\<lambda>c. \<not> is_currency_char c) s"

abbreviation (input) DOT :: nat where "DOT \<equiv> 46"
abbreviation (input) COMMA :: nat where "COMMA \<equiv> 44"
abbreviation (input) PERCENT :: nat where "PERCENT \<equiv> 37"

text \<open>\<open>s.rfind(c)\<close>: the last index of \<open>c\<close>, or \<open>-1\<close>.\<close>

fun rfind_from :: "nat \<Rightarrow> nat \<Rightarrow> str \<Rightarrow> int \<Rightarrow> int" where
  "rfind_from c i [] found = found"
| "rfind_from c i (x # xs) found = rfind_from c (Suc i) xs (if x = c then int i else found)"

definition rfind :: "str \<Rightarrow> nat \<Rightarrow> int" where
  "rfind s c = rfind_from c 0 s (- 1)"

text \<open>\<open>s.index(c)\<close>: the first index of \<open>c\<close>; \<open>ValueError\<close> when there is none.\<close>

fun index_from :: "nat \<Rightarrow> nat \<Rightarrow> str \<Rightarrow> exn + nat" where
  "index_from c i [] = Inl ValueError"
| "index_from c i (x # xs) = (if x = c then Inr i else index_from c (Suc i) xs)"

definition index :: "str \<Rightarrow> nat \<Rightarrow> exn + nat" where
  "index s c = index_from c 0 s"

text \<open>\<open>s.replace(c, '')\<close> and \<open>s.replace(c, d)\<close> for single characters.\<close>

definition remove_char :: "nat \<Rightarrow> str \<Rightarrow> str" where
  "remove_char c s = filter (\<lambda>x. x \<noteq> c) s"

definition replace_char :: "nat \<Rightarrow> nat \<Rightarrow> str \<Rightarrow> str" where
  "replace_char c d s = map (\<lambda>x. if x = c then d else x) s"

text \<open>
  The separator rules inside the \<open>try\<close> block: the text that is handed to \<open>float()\<close>.
\<close>

definition normalise_separators :: "str \<Rightarrow> exn + str" where
  "normalise_separators t =
     (let dot_count = count_list t DOT; comma_count = count_list t COMMA
      in if comma_count > 0 \<and> dot_count > 0 then
           (if rfind t COMMA > rfind t DOT
            then Inr (replace_char COMMA DOT (remove_char DOT t))
            else Inr (remove_char COMMA t))
         else if comma_count > 0 then
           (if comma_count = 1 then
              (case index t COMMA of
                 Inl e \<Rightarrow> Inl e
               | Inr i \<Rightarrow>
                   if int i > int (length t) - 4 then Inr (replace_char COMMA DOT t)
                   else Inr (remove_char COMMA t))
            else Inr (remove_char COMMA t))
         else if dot_count > 1 then Inr (remove_char DOT t)
         else Inr t)"

text \<open>
  \<open>parse_price\<close>. The \<open>except (ValueError, AttributeError)\<close> clause turns an exception
  of the \<open>try\<close> block into \<open>float('inf')\<close>, the value that stands for "no price".
\<close>

definition parse_price :: "runtime \<Rightarrow> str \<Rightarrow> pyfloat" where
  "parse_price rt price_text =
     (if price_text = [] then PInf
      else if PERCENT \<in> set price_text then PInf
      else
        (case normalise_separators (strip_currency price_text) of
           Inl e \<Rightarrow> PInf
         | Inr t \<Rightarrow>
             (case py_float rt t of
                Inl e \<Rightarrow> PInf
              | Inr price \<Rightarrow>
                  if float_le price (Fin 0) \<or> float_gt price (Fin 999999) then PInf
                  else price)))"

section \<open>Configuration, documents and the network\<close>

text \<open>The entries of the global \<open>config\<close> dictionary that the crawl reads.\<close>

record config =
  base_url :: str
  max_price :: pyfloat
  excluded_url_patterns :: "str list"

text \<open>
  A BeautifulSoup \<open>Tag\<close> (the parsed document is one too), by what the program asks of
  it: its name, its attributes, \<open>get_text()\<close>, \<open>get_text(strip=True)\<close>, the result of
  \<open>select\<close> for each selector, \<open>find_all('a', href=True)\<close>, the text
  nodes of \<open>find_all(string=True)\<close> and the block-level ancestor that
  \<open>find_parent(['div', 'article', 'li', 'section'])\<close> returns. The CSS engine and the
  markup parser are not part of the program.
\<close>

datatype tag = Tag
  (tag_name: str)
  (attrs: "(str \<times> str) list")
  (get_text: str)
  (get_text_strip: str)
  (selections: "(str \<times> tag list) list")
  (find_links: "tag list")
  (find_strings: "str list")
  (find_parent: "tag option")

text \<open>\<open>tag.get(key, '')\<close>, \<open>tag.select(selector)\<close> and \<open>tag.select_one(selector)\<close>.\<close>

definition get_attr :: "tag \<Rightarrow> str \<Rightarrow> str" where
  "get_attr t key = (case map_of (attrs t) key of None \<Rightarrow> [] | Some v \<Rightarrow> v)"

definition select :: "tag \<Rightarrow> str \<Rightarrow> tag list" where
  "select t selector = (case map_of (selections t) selector of None \<Rightarrow> [] | Some ts \<Rightarrow> ts)"

definition select_one :: "tag \<Rightarrow> str \<Rightarrow> tag option" where
  "select_one t selector = (case select t selector of [] \<Rightarrow> None | e # _ \<Rightarrow> Some e)"

text \<open>\<open>any(k in s for k in ks)\<close>: some string of the list occurs in \<open>s\<close>.\<close>

definition any_in :: "str list \<Rightarrow> str \<Rightarrow> bool" where
  "any_in ks s = list_ex (\<lambda>k. sublist k s) ks"

text \<open>
  One \<open>requests.get\<close> followed by \<open>raise_for_status\<close>: the parsed body of a good
  response, an exception of class \<open>RequestException\<close> (connection error, timeout, HTTP
  error status), or any other exception. The network is a function of the number of
  requests made so far (the clock) and of the address.
\<close>

datatype outcome = Response tag | RequestException | OtherException

type_synonym network = "nat \<Rightarrow> str \<Rightarrow> outcome"

section \<open>Fetcher\<close>

text \<open>
  The retry loop of \<open>make_request\<close>, by the number of attempts that remain: the attempt
  with none after it is the one where \<open>attempt == max_retries - 1\<close>. \<open>Inr None\<close> is
  the return value \<open>None\<close>; an exception that is not a \<open>RequestException\<close> is not
  caught. The result carries the clock after the call.
\<close>

fun request_attempts :: "network \<Rightarrow> str \<Rightarrow> nat \<Rightarrow> nat \<Rightarrow> (exn + tag option) \<times> nat" where
  "request_attempts net url 0 t = (Inr None, t)"
| "request_attempts net url (Suc k) t =
     (case net t url of
        Response doc \<Rightarrow> (Inr (Some doc), Suc t)
      | RequestException \<Rightarrow>
          if k = 0 then (Inr None, Suc t) else request_attempts net url k (Suc t)
      | OtherException \<Rightarrow> (Inl OtherError, Suc t))"

definition make_request :: "network \<Rightarrow> str \<Rightarrow> nat \<Rightarrow> (exn + tag option) \<times> nat" where
  "make_request net url t = request_attempts net url 3 t"

section \<open>Category Discoverer\<close>

definition menu_selectors :: "str list" where
  "menu_selectors =
     [ascii ''nav a'', ascii ''.navigation a'', ascii ''.menu a'', ascii ''.nav-menu a'',
      ascii ''header nav a'', ascii ''.category-menu a'', ascii ''.main-nav a'',
      ascii ''#menu a'', ascii ''ul.menu a'']"

definition excluded_keywords :: "str list" where
  "excluded_keywords =
     [ascii ''account'', ascii ''cart'', ascii ''checkout'', ascii ''login'',
      ascii ''register'', ascii ''signup'', ascii ''forgot'', ascii ''password'',
      ascii ''orders'', ascii ''order'', ascii ''return'', ascii ''returns'',
      ascii ''blog'', ascii ''testimonials'', ascii ''contact'', ascii ''about'',
      ascii ''terms'', ascii ''conditions'', ascii ''policy'', ascii ''privacy'',
      ascii ''delivery'', ascii ''shipping'', ascii ''payment'', ascii ''payments'',
      ascii ''map'', ascii ''search'', ascii ''wishlist'', ascii ''wish-list'',
      ascii ''favorites'', ascii ''favourites'', ascii ''newsletter'', ascii ''subscribe'',
      ascii ''cookies'', ascii ''how-to-buy'', ascii ''faq'', ascii ''price-guarantee'',
      ascii ''loyalty'', ascii ''rewards'', ascii ''points'', ascii ''size-guide'',
      ascii ''size-chart'', ascii ''info'', ascii ''information'']"

text \<open>
  The body of the loop over the links of one selector: the category a link contributes, if
  any. \<open>Inl ValueError\<close> is \<open>urljoin\<close> raising, which nothing in
  \<open>get_all_categories\<close> catches.
\<close>

definition category_of_link :: "runtime \<Rightarrow> config \<Rightarrow> str \<Rightarrow> tag \<Rightarrow> exn + str option" where
  "category_of_link rt cfg base link =
     (let href = get_attr link (ascii ''href'')
      in if href = [] \<or> href \<in> set [ascii ''#'', ascii ''/'', []] then Inr None
         else (case urljoin rt base href of
                 None \<Rightarrow> Inl ValueError
               | Some full_url \<Rightarrow>
                   if \<not> prefix base full_url then Inr None
                   else let url_lower = lower rt full_url
                        in if any_in excluded_keywords url_lower then Inr None
                           else if any_in (excluded_url_patterns cfg) url_lower then Inr None
                           else Inr (Some full_url)))"

fun category_links :: "runtime \<Rightarrow> config \<Rightarrow> str \<Rightarrow> tag list \<Rightarrow> str set \<Rightarrow> exn + str set" where
  "category_links rt cfg base [] categories = Inr categories"
| "category_links rt cfg base (link # links) categories =
     (case category_of_link rt cfg base link of
        Inl e \<Rightarrow> Inl e
      | Inr None \<Rightarrow> category_links rt cfg base links categories
      | Inr (Some full_url) \<Rightarrow> category_links rt cfg base links (insert full_url categories))"

text \<open>The loop over the selectors. It has no \<open>break\<close>: every selector is applied.\<close>

fun category_selectors ::
  "runtime \<Rightarrow> config \<Rightarrow> str \<Rightarrow> tag \<Rightarrow> str list \<Rightarrow> str set \<Rightarrow> exn + str set" where
  "category_selectors rt cfg base soup [] categories = Inr categories"
| "category_selectors rt cfg base soup (selector # rest) categories =
     (case category_links rt cfg base (select soup selector) categories of
        Inl e \<Rightarrow> Inl e
      | Inr categories' \<Rightarrow> category_selectors rt cfg base soup rest categories')"

text \<open>
  \<open>get_all_categories\<close>. The source returns \<open>list(categories)\<close>, the elements of the
  set in an order Python does not fix; the model returns the set.
\<close>

definition get_all_categories ::
  "runtime \<Rightarrow> config \<Rightarrow> network \<Rightarrow> str \<Rightarrow> nat \<Rightarrow> (exn + str set) \<times> nat" where
  "get_all_categories rt cfg net base t =
     (case make_request net base t of
        (Inl e, t') \<Rightarrow> (Inl e, t')
      | (Inr None, t') \<Rightarrow> (Inr {}, t')
      | (Inr (Some soup), t') \<Rightarrow> (category_selectors rt cfg base soup menu_selectors {}, t'))"

section \<open>Pagination Discoverer\<close>

text \<open>The third selector is \<open>a[rel="next"]\<close>; 34 is the double quote.\<close>

definition pagination_selectors :: "str list" where
  "pagination_selectors =
     [ascii ''.pagination a'', ascii ''.pager a'', ascii ''a[rel='' @ [34] @ ascii ''next'' @ [34] @ ascii '']'',
      ascii ''.page-numbers a'', ascii ''nav.pagination a'', ascii ''ul.pagination a'']"

definition sorted_url :: "str \<Rightarrow> str" where
  "sorted_url category_url =
     category_url @ (if 63 \<in> set category_url then ascii ''&'' else ascii ''?'')
       @ ascii ''sort_by=price_asc''"

text \<open>
  The loop over the links of the pagination region. When \<open>urljoin\<close> raises, the
  \<open>except Exception\<close> clause of \<open>get_all_pages\<close> ends the search and the pages
  found so far are returned.
\<close>

fun pagination_links :: "runtime \<Rightarrow> str \<Rightarrow> tag list \<Rightarrow> str list \<Rightarrow> str list" where
  "pagination_links rt category_url [] pages = pages"
| "pagination_links rt category_url (link # links) pages =
     (let href = get_attr link (ascii ''href'')
      in if href \<noteq> [] \<and> href \<notin> set [ascii ''#'', ascii ''javascript:void(0)''] then
           (case urljoin rt category_url href of
              None \<Rightarrow> pages
            | Some full_url \<Rightarrow>
                pagination_links rt category_url links
                  (if full_url \<notin> set pages then pages @ [full_url] else pages))
         else pagination_links rt category_url links pages)"

text \<open>The loop over the selectors: the first one with a match is used, then \<open>break\<close>.\<close>

fun find_pagination :: "runtime \<Rightarrow> str \<Rightarrow> tag \<Rightarrow> str list \<Rightarrow> str list \<Rightarrow> str list" where
  "find_pagination rt category_url soup [] pages = pages"
| "find_pagination rt category_url soup (selector # rest) pages =
     (let pagination_links' = select soup selector
      in if pagination_links' \<noteq> [] then pagination_links rt category_url pagination_links' pages
         else find_pagination rt category_url soup rest pages)"

definition get_all_pages :: "runtime \<Rightarrow> network \<Rightarrow> str \<Rightarrow> nat \<Rightarrow> str list \<times> nat" where
  "get_all_pages rt net category_url t =
     (let pages = [sorted_url category_url]
      in case make_request net (sorted_url category_url) t of
           (Inl e, t') \<Rightarrow> (pages, t')
         | (Inr None, t') \<Rightarrow> (pages, t')
         | (Inr (Some soup), t') \<Rightarrow>
             (find_pagination rt category_url soup pagination_selectors pages, t'))"

section \<open>Extractor\<close>

record product =
  title :: str
  price :: pyfloat
  url :: str

text \<open>The selectors \<open>pre[class*="word"]\<close>; 34 is the double quote.\<close>

definition class_contains :: "string \<Rightarrow> string \<Rightarrow> str" where
  "class_contains pre word = ascii pre @ ascii ''[class*='' @ [34] @ ascii word @ [34] @ ascii '']''"

definition container_selectors :: "str list" where
  "container_selectors =
     [ascii ''.product'', ascii ''.product-item'', ascii ''.product-card'',
      ascii ''article.product'', ascii ''.item-product'', ascii ''[data-product-id]'',
      ascii ''.grid-item'', ascii ''.product-listing-item'', class_contains [] ''product'',
      class_contains ''article'' ''item'', class_contains ''div'' ''grid'']"

definition title_selectors :: "str list" where
  "title_selectors =
     [ascii ''h2 a'', ascii ''h3 a'', ascii ''h4 a'', ascii ''h2'', ascii ''h3'', ascii ''h4'',
      ascii ''.product-title'', ascii ''.product-name'', ascii ''.title'',
      ascii ''a.product-link'', ascii ''a[title]'', ascii ''.name'']"

definition price_selectors :: "str list" where
  "price_selectors =
     [ascii ''.product__info--price-gross'', ascii ''.price'', ascii ''.product-price'',
      ascii ''span.price'', ascii ''.price-current'', ascii ''[data-price]'',
      class_contains [] ''price'', class_contains ''span'' ''price'']"

text \<open>Primary detection: the first selector with at least three matches.\<close>

fun primary_containers :: "tag \<Rightarrow> str list \<Rightarrow> tag list" where
  "primary_containers soup [] = []"
| "primary_containers soup (selector # rest) =
     (let containers = select soup selector
      in if length containers \<ge> 3 then containers else primary_containers soup rest)"

text \<open>Fallback detection, for one link: the ancestor that becomes a container, if any.\<close>

definition potential_product :: "runtime \<Rightarrow> tag \<Rightarrow> tag option" where
  "potential_product rt link =
     (if any_in [ascii ''#'', ascii ''javascript:'', ascii ''mailto:'']
           (lower rt (get_attr link (ascii ''href'')))
      then None
      else (case find_parent link of
              None \<Rightarrow> None
            | Some parent \<Rightarrow>
                let text = get_text parent
                in if any_in [ascii ''lei'', ascii ''ron'', ascii ''$'', [8364], [163],
                              ascii '','', ascii ''.''] text
                      \<and> list_ex (isdigit rt) text
                   then Some parent else None))"

text \<open>
  \<open>list(set(potential_products))\<close> keeps one of each group of equal tags, in an order
  Python does not fix; \<open>remdups\<close> is one such order.
\<close>

definition product_containers :: "runtime \<Rightarrow> tag \<Rightarrow> tag list" where
  "product_containers rt soup =
     (let primary = primary_containers soup container_selectors
      in if primary = [] then remdups (List.map_filter (potential_product rt) (find_links soup))
         else primary)"

text \<open>
  The loop over the title selectors. \<open>title\<close> keeps the text of the last selector that
  matched an element, also when that text failed the length check; \<open>title_elem\<close> is set
  only with a text that passed.
\<close>

fun title_loop :: "tag \<Rightarrow> str list \<Rightarrow> str option \<Rightarrow> str option \<times> tag option" where
  "title_loop container [] t = (t, None)"
| "title_loop container (selector # rest) t =
     (case select_one container selector of
        None \<Rightarrow> title_loop container rest t
      | Some elem \<Rightarrow>
          let t1 = strip (get_attr elem (ascii ''title''));
              t2 = (if t1 = [] then get_text_strip elem else t1)
          in if t2 \<noteq> [] \<and> length t2 > 5 then (Some t2, Some elem)
             else title_loop container rest (Some t2))"

text \<open>\<open>not title\<close>: \<open>None\<close> or the empty string.\<close>

definition no_title :: "str option \<Rightarrow> bool" where
  "no_title t = (case t of None \<Rightarrow> True | Some s \<Rightarrow> s = [])"

text \<open>The loop of the "last resort": the first link whose text is longer than 10.\<close>

fun first_long_link :: "tag list \<Rightarrow> tag option" where
  "first_long_link [] = None"
| "first_long_link (link # links) =
     (if length (get_text_strip link) > 10 then Some link else first_long_link links)"

definition extract_title :: "tag \<Rightarrow> str option \<times> tag option" where
  "extract_title container =
     (case title_loop container title_selectors None of
        (t, title_elem) \<Rightarrow>
          if no_title t then
            (case first_long_link (find_links container) of
               None \<Rightarrow> (t, title_elem)
             | Some link \<Rightarrow> (Some (get_text_strip link), Some link))
          else (t, title_elem))"

fun first_product_link :: "runtime \<Rightarrow> tag list \<Rightarrow> tag option" where
  "first_product_link rt [] = None"
| "first_product_link rt (link # links) =
     (if \<not> any_in [ascii ''#'', ascii ''javascript:'', ascii ''mailto:'', ascii ''tel:'']
             (lower rt (get_attr link (ascii ''href'')))
      then Some link else first_product_link rt links)"

definition find_link_elem :: "runtime \<Rightarrow> tag \<Rightarrow> tag option \<Rightarrow> tag option" where
  "find_link_elem rt container title_elem =
     (case title_elem of
        Some e \<Rightarrow>
          if tag_name e = ascii ''a'' then Some e
          else first_product_link rt
                 (filter (\<lambda>l. length (get_attr l (ascii ''href'')) > 5) (find_links container))
      | None \<Rightarrow>
          first_product_link rt
            (filter (\<lambda>l. length (get_attr l (ascii ''href'')) > 5) (find_links container)))"

fun price_in_elems :: "runtime \<Rightarrow> tag list \<Rightarrow> pyfloat option" where
  "price_in_elems rt [] = None"
| "price_in_elems rt (elem # elems) =
     (let text = get_text_strip elem
      in if text \<noteq> [] \<and> 37 \<notin> set text \<and> \<not> sublist (ascii ''discount'') (lower rt text)
            \<and> \<not> sublist (ascii ''save'') (lower rt text)
            \<and> \<not> sublist (ascii ''eco'') (lower rt text)
         then (let test_price = parse_price rt text
               in if test_price \<noteq> PInf \<and> float_gt test_price (Fin 0) then Some test_price
                  else price_in_elems rt elems)
         else price_in_elems rt elems)"

fun price_by_selectors :: "runtime \<Rightarrow> tag \<Rightarrow> str list \<Rightarrow> pyfloat option" where
  "price_by_selectors rt container [] = None"
| "price_by_selectors rt container (selector # rest) =
     (case price_in_elems rt (select container selector) of
        Some p \<Rightarrow> Some p
      | None \<Rightarrow> price_by_selectors rt container rest)"

fun price_in_strings :: "runtime \<Rightarrow> str list \<Rightarrow> pyfloat option" where
  "price_in_strings rt [] = None"
| "price_in_strings rt (text_node # nodes) =
     (let text = strip text_node
      in if list_ex (isdigit rt) text
            \<and> any_in [ascii ''lei'', ascii ''ron'', ascii ''$'', [8364], [163], ascii '',''] (lower rt text)
            \<and> 37 \<notin> set text \<and> \<not> sublist (ascii ''discount'') (lower rt text)
         then (let test_price = parse_price rt text
               in if test_price \<noteq> PInf \<and> float_gt test_price (Fin 0) then Some test_price
                  else price_in_strings rt nodes)
         else price_in_strings rt nodes)"

definition find_price :: "runtime \<Rightarrow> tag \<Rightarrow> pyfloat" where
  "find_price rt container =
     (case price_by_selectors rt container price_selectors of
        Some p \<Rightarrow> p
      | None \<Rightarrow> (case price_in_strings rt (find_strings container) of Some p \<Rightarrow> p | None \<Rightarrow> PInf))"

text \<open>
  The body of the loop over the containers: the product of one container, or \<open>None\<close>
  where the source says \<open>continue\<close>. \<open>urljoin\<close> raising is caught by the
  \<open>except Exception\<close> of the body, which also continues.
\<close>

definition extract_product :: "runtime \<Rightarrow> config \<Rightarrow> tag \<Rightarrow> product option" where
  "extract_product rt cfg container =
     (case extract_title container of
        (None, title_elem) \<Rightarrow> None
      | (Some t, title_elem) \<Rightarrow>
          if t = [] then None
          else (case find_link_elem rt container title_elem of
                  None \<Rightarrow> None
                | Some link_elem \<Rightarrow>
                    (case urljoin rt (base_url cfg) (get_attr link_elem (ascii ''href'')) of
                       None \<Rightarrow> None
                     | Some product_url \<Rightarrow>
                         let p = find_price rt container
                         in if p = PInf then None
                            else if float_le p (Fin 0) \<or> float_gt p (Fin 999999) then None
                            else if any_in (excluded_url_patterns cfg) (lower rt product_url)
                              then None
                            else Some \<lparr>title = t, price = p, url = product_url\<rparr>)))"

text \<open>
  \<open>parse_products\<close>. \<open>make_request\<close> is called outside every \<open>try\<close>, so an exception
  it does not catch leaves the function.
\<close>

definition parse_products ::
  "runtime \<Rightarrow> config \<Rightarrow> network \<Rightarrow> str \<Rightarrow> nat \<Rightarrow> (exn + product list) \<times> nat" where
  "parse_products rt cfg net page_url t =
     (case make_request net page_url t of
        (Inl e, t') \<Rightarrow> (Inl e, t')
      | (Inr None, t') \<Rightarrow> (Inr [], t')
      | (Inr (Some soup), t') \<Rightarrow>
          (Inr (List.map_filter (extract_product rt cfg) (product_containers rt soup)), t'))"

section \<open>Dedup Store\<close>

subsection \<open>What \<open>json.dump\<close> writes\<close>

text \<open>
  \<open>json.dump(list, f, indent=2, ensure_ascii=False)\<close> on a list of strings. A string
  is written between double quotes (34) with the escapes of \<open>py_encode_basestring\<close>: a
  backslash (92) before a double quote and before a backslash, the letters \<open>n r t b f\<close>
  for line feed, carriage return, tab, backspace and form feed, \<open>\u00xx\<close> in lower-case
  hexadecimal for every other code point below 32, and every other code point as it is.
\<close>

definition hex_digit :: "nat \<Rightarrow> nat" where
  "hex_digit d = (if d < 10 then 48 + d else 87 + d)"

definition json_escape :: "nat \<Rightarrow> str" where
  "json_escape c =
     (if c = 34 then [92, 34]
      else if c = 92 then [92, 92]
      else if c = 10 then [92, 110]
      else if c = 13 then [92, 114]
      else if c = 9 then [92, 116]
      else if c = 8 then [92, 98]
      else if c = 12 then [92, 102]
      else if c < 32 then [92, 117, 48, 48, hex_digit (c div 16), hex_digit (c mod 16)]
      else [c])"

definition encode_string :: "str \<Rightarrow> str" where
  "encode_string s = [34] @ concat (map json_escape s) @ [34]"

text \<open>
  The encoder yields the text in chunks, and \<open>json.dump\<close> writes each chunk to the file
  as it comes: \<open>[]\<close> for the empty list; otherwise the opening bracket, a line feed (10),
  two spaces (32) and the first string, then for every further string a comma, a line feed,
  two spaces and the string, then a line feed, then the closing bracket.
\<close>

definition json_chunks :: "str list \<Rightarrow> str list" where
  "json_chunks lst =
     (case lst of
        [] \<Rightarrow> [ascii ''[]'']
      | x # xs \<Rightarrow>
          (ascii ''['' @ [10, 32, 32] @ encode_string x)
            # map (\<lambda>y. ascii '','' @ [10, 32, 32] @ encode_string y) xs
            @ [[10], ascii '']''])"

text \<open>
  The file is opened with \<open>encoding='utf-8'\<close>, and a chunk that holds a surrogate code
  point (\<open>D800\<close> to \<open>DFFF\<close>) cannot be encoded: writing it raises
  \<open>UnicodeEncodeError\<close>.
\<close>

definition utf8_encodable :: "str \<Rightarrow> bool" where
  "utf8_encodable s = list_all (\<lambda>c. c < 55296 \<or> (57343 < c \<and> c \<le> 1114111)) s"

text \<open>
  The file \<open>seen_products.json\<close>: absent, or present with a text. The disk either takes
  the whole write, or refuses \<open>open\<close>, or fails when only the first characters of the
  text have reached the file.
\<close>

datatype seen_file = Missing | Content str

datatype disk = DiskOk | OpenFails | WriteFails nat

text \<open>
  The text that reaches the file when the disk works: \<open>open(..., 'w')\<close> empties the
  file, the chunks before the first one that cannot be encoded are written, and the
  exception of that chunk ends the writing.
\<close>

definition written_text :: "str list \<Rightarrow> str" where
  "written_text xs = concat (takeWhile utf8_encodable (json_chunks xs))"

text \<open>
  \<open>list(seen_products)\<close> is some list of the elements of the set, each once, in an
  order Python does not fix.
\<close>

definition listing_of :: "str list \<Rightarrow> str set \<Rightarrow> bool" where
  "listing_of xs S \<longleftrightarrow> set xs = S \<and> distinct xs"

text \<open>
  \<open>save_seen_products\<close>, given the disk, the file as it was and the list that
  \<open>list(seen_products)\<close> produced: the file afterwards. Every exception (from
  \<open>open\<close>, from the encoding, from the disk) is caught and logged, so the function
  returns in every case and the set in memory is not touched.
\<close>

definition save_seen_products :: "disk \<Rightarrow> seen_file \<Rightarrow> str list \<Rightarrow> seen_file" where
  "save_seen_products d old xs =
     (case d of
        OpenFails \<Rightarrow> old
      | WriteFails n \<Rightarrow> Content (take n (written_text xs))
      | DiskOk \<Rightarrow> Content (written_text xs))"

subsection \<open>What \<open>json.load\<close> reads\<close>

text \<open>
  The decoder of the \<open>json\<close> module on a text that holds an array of strings, which
  is what \<open>save_seen_products\<close> writes. White space is space, tab, line feed and
  carriage return. Inside a string a backslash starts an escape: one of
  \<open>" \ / b f n r t\<close>, or \<open>u\<close> and four hexadecimal digits, where a high surrogate
  followed by the escape of a low surrogate gives one code point; a code point below 32
  is an error. The scanner returns the string and the text after its closing quote.
\<close>

definition is_json_space :: "nat \<Rightarrow> bool" where
  "is_json_space c \<longleftrightarrow> c = 32 \<or> c = 9 \<or> c = 10 \<or> c = 13"

definition hex_value :: "nat \<Rightarrow> nat option" where
  "hex_value c =
     (if 48 \<le> c \<and> c \<le> 57 then Some (c - 48)
      else if 97 \<le> c \<and> c \<le> 102 then Some (c - 87)
      else if 65 \<le> c \<and> c \<le> 70 then Some (c - 55)
      else None)"

definition hex4_value :: "nat \<Rightarrow> nat \<Rightarrow> nat \<Rightarrow> nat \<Rightarrow> nat option" where
  "hex4_value a b c d =
     (case (hex_value a, hex_value b, hex_value c, hex_value d) of
        (Some w, Some x, Some y, Some z) \<Rightarrow> Some (4096 * w + 256 * x + 16 * y + z)
      | _ \<Rightarrow> None)"

definition unescape :: "nat \<Rightarrow> nat option" where
  "unescape e =
     (if e = 34 \<or> e = 92 \<or> e = 47 then Some e
      else if e = 98 then Some 8
      else if e = 102 then Some 12
      else if e = 110 then Some 10
      else if e = 114 then Some 13
      else if e = 116 then Some 9
      else None)"

definition add_char :: "nat \<Rightarrow> (str \<times> str) option \<Rightarrow> (str \<times> str) option" where
  "add_char c r = map_option (\<lambda>(s, rest). (c # s, rest)) r"

definition scan_unicode :: "str \<Rightarrow> (nat \<times> str) option" where
  "scan_unicode es =
     (case es of
        a # b # c # d # rest \<Rightarrow>
          (case hex4_value a b c d of
             None \<Rightarrow> None
           | Some uni \<Rightarrow>
               if 55296 \<le> uni \<and> uni \<le> 56319 then
                 (case rest of
                    bs # u # a2 # b2 # c2 # d2 # rest2 \<Rightarrow>
                      if bs = 92 \<and> u = 117 then
                        (case hex4_value a2 b2 c2 d2 of
                           None \<Rightarrow> None
                         | Some uni2 \<Rightarrow>
                             if 56320 \<le> uni2 \<and> uni2 \<le> 57343
                             then Some (65536 + (uni - 55296) * 1024 + (uni2 - 56320), rest2)
                             else Some (uni, rest))
                      else Some (uni, rest)
                  | _ \<Rightarrow> Some (uni, rest))
               else Some (uni, rest))
      | _ \<Rightarrow> None)"

definition scan_escape :: "str \<Rightarrow> (nat \<times> str) option" where
  "scan_escape cs =
     (case cs of
        [] \<Rightarrow> None
      | e # es \<Rightarrow>
          if e = 117 then scan_unicode es
          else map_option (\<lambda>ch. (ch, es)) (unescape e))"

text \<open>An escape consumes at least one code point, which makes the scanner terminate.\<close>

lemma scan_escape_shorter: "scan_escape cs = Some (ch, rest) \<Longrightarrow> length rest < length cs"
  by (auto simp: scan_escape_def scan_unicode_def split: list.splits option.splits if_splits)

function scan_string :: "str \<Rightarrow> (str \<times> str) option" where
  "scan_string [] = None"
| "scan_string (c # cs) =
     (if c = 34 then Some ([], cs)
      else if c = 92 then
        (case scan_escape cs of
           None \<Rightarrow> None
         | Some (ch, rest) \<Rightarrow> add_char ch (scan_string rest))
      else if c < 32 then None
      else add_char c (scan_string cs))"
  by pat_completeness auto
termination
  by (relation "measure length") (auto dest: scan_escape_shorter)

declare scan_string.simps(2) [simp del]

lemma scan_string_shorter: "scan_string s = Some (x, rest) \<Longrightarrow> length rest < length s"
proof (induction s arbitrary: x rest rule: scan_string.induct)
  case 1
  then show ?case by simp
next
  case (2 c cs)
  consider "c = 34" | "c = 92" | "c \<noteq> 34" "c \<noteq> 92" by blast
  then show ?case
  proof cases
    case 1
    with "2.prems" show ?thesis by (simp add: scan_string.simps(2))
  next
    case 2
    with "2.prems" obtain ch r y where
      e: "scan_escape cs = Some (ch, r)" and s: "scan_string r = Some (y, rest)"
      by (auto simp: scan_string.simps(2) add_char_def split: option.splits)
    from "2.IH"(1) [OF _ 2 e refl s] 2 have "length rest < length r" by simp
    with scan_escape_shorter [OF e] show ?thesis by simp
  next
    case 3
    with "2.prems" obtain y where s: "scan_string cs = Some (y, rest)" and "\<not> c < 32"
      by (auto simp: scan_string.simps(2) add_char_def split: if_splits)
    with "2.IH"(2) [OF 3(1) 3(2) _ s] show ?thesis by simp
  qed
qed

text \<open>
  The elements of an array, from the first code point of an element on: a string, then
  white space, then either the closing bracket (after which only white space may follow)
  or a comma, white space and the remaining elements. An element that is not a string is
  outside this model, as is any document that is not an array: the program writes none,
  and such a file is read here like one that \<open>json.load\<close> rejects.
\<close>

definition skip_space :: "str \<Rightarrow> str" where
  "skip_space t = dropWhile is_json_space t"

lemma after_element_shorter:
  assumes "scan_string cs = Some (x, rest)" and "skip_space rest = d # ds"
  shows "length (skip_space ds) < Suc (length cs)"
proof -
  have "length (skip_space ds) \<le> length ds"
    by (simp add: skip_space_def length_dropWhile_le)
  moreover have "length (d # ds) \<le> length rest"
    using length_dropWhile_le [of is_json_space rest] assms(2) by (simp add: skip_space_def)
  ultimately show ?thesis using scan_string_shorter [OF assms(1)] by simp
qed

function parse_elements :: "str \<Rightarrow> str list option" where
  "parse_elements t =
     (case t of
        [] \<Rightarrow> None
      | c # cs \<Rightarrow>
          if c \<noteq> 34 then None
          else (case scan_string cs of
                  None \<Rightarrow> None
                | Some (x, rest) \<Rightarrow>
                    (case skip_space rest of
                       [] \<Rightarrow> None
                     | d # ds \<Rightarrow>
                         if d = 93 then (if skip_space ds = [] then Some [x] else None)
                         else if d = 44 then map_option ((#) x) (parse_elements (skip_space ds))
                         else None)))"
  by pat_completeness auto
termination
  by (relation "measure length") (auto intro: after_element_shorter)

declare parse_elements.simps [simp del]

definition json_string_array :: "str \<Rightarrow> str list option" where
  "json_string_array t =
     (case skip_space t of
        [] \<Rightarrow> None
      | c # cs \<Rightarrow>
          if c \<noteq> 91 then None
          else (case skip_space cs of
                  [] \<Rightarrow> None
                | d # ds \<Rightarrow>
                    if d = 93 then (if skip_space ds = [] then Some [] else None)
                    else parse_elements (d # ds)))"

text \<open>
  \<open>load_seen_products\<close>: a missing file leaves the global set as it is; when
  \<open>set(json.load(f))\<close> raises, the bare \<open>except\<close> empties the set; an array
  becomes the set of its elements.
\<close>

definition load_seen_products :: "seen_file \<Rightarrow> str set \<Rightarrow> str set" where
  "load_seen_products f seen_products =
     (case f of
        Missing \<Rightarrow> seen_products
      | Content t \<Rightarrow> (case json_string_array t of None \<Rightarrow> {} | Some xs \<Rightarrow> set xs))"

section \<open>Scan Orchestrator\<close>

text \<open>The f-string \<open>{url}_{price}\<close>; 95 is the underscore.\<close>

definition product_id :: "runtime \<Rightarrow> product \<Rightarrow> str" where
  "product_id rt p = url p @ [95] @ float_repr rt (price p)"

text \<open>
  The text handed to \<open>send_telegram_alert\<close> for a product; 127919 is the emoji at its
  start and 10 the line feed.
\<close>

definition alert_message :: "runtime \<Rightarrow> product \<Rightarrow> str" where
  "alert_message rt p =
     [127919] @ ascii '' *CHEAP PRODUCT FOUND!*'' @ [10, 10]
       @ ascii ''*Title:* '' @ title p @ [10]
       @ ascii ''*Price:* '' @ float_repr rt (price p) @ [10]
       @ ascii ''*URL:* '' @ url p"

text \<open>
  The loop over \<open>filtered_products\<close>: the set of seen keys and the counter
  \<open>products_found\<close> after it, and the products for which \<open>send_telegram_alert\<close> was
  called (with \<open>alert_message\<close>), in order.
\<close>

fun scan_products ::
  "runtime \<Rightarrow> product list \<Rightarrow> str set \<Rightarrow> nat \<Rightarrow> str set \<times> nat \<times> product list" where
  "scan_products rt [] seen found = (seen, found, [])"
| "scan_products rt (p # ps) seen found =
     (if product_id rt p \<notin> seen then
        (case scan_products rt ps (insert (product_id rt p) seen) (found + 1) of
           (seen', found', sent) \<Rightarrow> (seen', found', p # sent))
      else scan_products rt ps seen found)"

text \<open>The list comprehension \<open>[p for p in products if p['price'] <= max_price]\<close>.\<close>

definition filtered_products :: "config \<Rightarrow> product list \<Rightarrow> product list" where
  "filtered_products cfg products = filter (\<lambda>p. float_le (price p) (max_price cfg)) products"

text \<open>
  What a scan changes: the global set \<open>seen_products\<close>, the clock of the network and
  the alerts sent so far.
\<close>

record state =
  seen_products :: "str set"
  clock :: nat
  alerts :: "product list"

text \<open>
  The loop over the pages inside the \<open>try\<close> of \<open>scan_category\<close>. An exception
  reaches the \<open>except Exception\<close> clause, which returns the counters as they are with
  the error flag set.
\<close>

fun scan_pages ::
  "runtime \<Rightarrow> config \<Rightarrow> network \<Rightarrow> str list \<Rightarrow> nat \<Rightarrow> nat \<Rightarrow> state
     \<Rightarrow> (nat \<times> nat \<times> bool) \<times> state" where
  "scan_pages rt cfg net [] products_checked products_found st =
     ((products_checked, products_found, False), st)"
| "scan_pages rt cfg net (page_url # rest) products_checked products_found st =
     (case parse_products rt cfg net page_url (clock st) of
        (Inl e, t') \<Rightarrow> ((products_checked, products_found, True), st\<lparr>clock := t'\<rparr>)
      | (Inr products, t') \<Rightarrow>
          (case scan_products rt (filtered_products cfg products) (seen_products st)
                  products_found of
             (seen', found', sent) \<Rightarrow>
               scan_pages rt cfg net rest
                 (products_checked + length (filtered_products cfg products)) found'
                 (st\<lparr>seen_products := seen', clock := t', alerts := alerts st @ sent\<rparr>)))"

definition scan_category ::
  "runtime \<Rightarrow> config \<Rightarrow> network \<Rightarrow> str \<Rightarrow> state \<Rightarrow> (nat \<times> nat \<times> bool) \<times> state" where
  "scan_category rt cfg net category_url st =
     (case get_all_pages rt net category_url (clock st) of
        (pages, t') \<Rightarrow> scan_pages rt cfg net pages 0 0 (st\<lparr>clock := t'\<rparr>))"

text \<open>
  The body of the loop of \<open>scan_website\<close> over the completed tasks: the totals
  \<open>(total_checked, total_found, categories_with_errors)\<close> after one more result.
  \<open>Inl\<close> is \<open>future.result()\<close> raising.
\<close>

fun add_outcome :: "nat \<times> nat \<times> nat \<Rightarrow> exn + (nat \<times> nat \<times> bool) \<Rightarrow> nat \<times> nat \<times> nat" where
  "add_outcome (total_checked, total_found, categories_with_errors) (Inr (checked, found, had_errors)) =
     (total_checked + checked, total_found + found,
      if had_errors then categories_with_errors + 1 else categories_with_errors)"
| "add_outcome (total_checked, total_found, categories_with_errors) (Inl e) =
     (total_checked, total_found, categories_with_errors + 1)"

definition aggregate :: "(exn + (nat \<times> nat \<times> bool)) list \<Rightarrow> nat \<times> nat \<times> nat" where
  "aggregate outcomes = foldl add_outcome (0, 0, 0) outcomes"

section \<open>Example inputs\<close>

text \<open>
  An instance of the library interface for the examples, which are all ASCII and use the
  prices 5.0, 7.5, 9.99 and 10.01: on these inputs it gives what Python gives.
\<close>

definition example_repr :: "pyfloat \<Rightarrow> str" where
  "example_repr x =
     (if x = Fin 5 then ascii ''5.0''
      else if x = Fin (15 / 2) then ascii ''7.5''
      else if x = nearest_double 999 100 then ascii ''9.99''
      else if x = nearest_double 1001 100 then ascii ''10.01''
      else ascii ''?'')"

definition example_runtime :: runtime where
  "example_runtime =
     \<lparr>todecimal = (\<lambda>c. if 1632 \<le> c \<and> c \<le> 1641 then Some (c - 1632) else None),
      isdigit = is_ascii_digit,
      lower = map (\<lambda>c. if 65 \<le> c \<and> c \<le> 90 then c + 32 else c),
      float_repr = example_repr,
      urljoin = (\<lambda>base href. if prefix (ascii ''https://'') href then Some href
                               else Some (base @ href))\<rparr>"

definition example_config :: config where
  "example_config =
     \<lparr>base_url = ascii ''https://shop.example'',
      max_price = Fin 10,
      excluded_url_patterns = [ascii ''gift-card'', ascii ''voucher'', ascii ''gift-certificate'']\<rparr>"

text \<open>An anchor \<open><a href=...>text</a>\<close>.\<close>

definition anchor :: "string \<Rightarrow> string \<Rightarrow> tag" where
  "anchor href text =
     Tag (ascii ''a'') [(ascii ''href'', ascii href)] (ascii text) (ascii text) [] []
       [ascii text] None"

text \<open>
  The page \<open><nav><a href="/phones">Phones</a>
  <a href="https://other.example/deals">Deals</a></nav>
  <div class="menu"><a href="/laptops">Laptops</a> <a href="/cart">Cart</a>
  <a href="#">Top</a> <a href="/Gift-Card">Gift cards</a></div>\<close>: the selector
  \<open>nav a\<close> matches the first two anchors only and \<open>.menu a\<close> the other four only.
\<close>

definition two_menus_page :: tag where
  "two_menus_page =
     Tag (ascii ''[document]'') [] (ascii ''PhonesDealsLaptops Cart Top Gift cards'')
       (ascii ''PhonesDealsLaptopsCartTopGift cards'')
       [(ascii ''nav a'', [anchor ''/phones'' ''Phones'',
                           anchor ''https://other.example/deals'' ''Deals'']),
        (ascii ''.menu a'', [anchor ''/laptops'' ''Laptops'', anchor ''/cart'' ''Cart'',
                             anchor ''#'' ''Top'', anchor ''/Gift-Card'' ''Gift cards''])]
       [anchor ''/phones'' ''Phones'', anchor ''https://other.example/deals'' ''Deals'',
        anchor ''/laptops'' ''Laptops'', anchor ''/cart'' ''Cart'', anchor ''#'' ''Top'',
        anchor ''/Gift-Card'' ''Gift cards'']
       [ascii ''Phones'', ascii ''Deals'', ascii ''Laptops'', ascii '' '', ascii ''Cart'',
        ascii '' '', ascii ''Top'', ascii '' '', ascii ''Gift cards''] None"

definition two_menus_net :: network where
  "two_menus_net t u = (if u = ascii ''https://shop.example'' then Response two_menus_page
                        else RequestException)"

text \<open>A network on which every request fails with a \<open>RequestException\<close>.\<close>

definition net_down :: network where
  "net_down t u = RequestException"

text \<open>A key whose URL holds the surrogate code point \<open>D800\<close> (55296).\<close>

definition surrogate_key :: str where
  "surrogate_key = ascii ''https://shop.example/p/'' @ [55296] @ ascii ''_5.0''"

definition initial_state :: state where
  "initial_state = \<lparr>seen_products = {}, clock = 0, alerts = []\<rparr>"

definition price_span :: "string \<Rightarrow> tag" where
  "price_span text =
     Tag (ascii ''span'') [(ascii ''class'', ascii ''price'')] (ascii text) (ascii text) [] []
       [ascii text] None"

text \<open>
  The container \<open><div class="product"><a href="/p/1">Short link text</a>
  <a href="/p/1">A much longer product link text</a><span class="price">5,00 lei</span></div>\<close>:
  no title selector matches in it.
\<close>

definition two_links_container :: tag where
  "two_links_container =
     Tag (ascii ''div'') [(ascii ''class'', ascii ''product'')]
       (ascii ''Short link textA much longer product link text5,00 lei'')
       (ascii ''Short link textA much longer product link text5,00 lei'')
       [(ascii ''.price'', [price_span ''5,00 lei''])]
       [anchor ''/p/1'' ''Short link text'', anchor ''/p/1'' ''A much longer product link text'']
       [ascii ''Short link text'', ascii ''A much longer product link text'', ascii ''5,00 lei'']
       None"

text \<open>
  The container \<open><div class="product"><h2>TV</h2>
  <a href="/p/television-55">Television with a 55 inch screen</a>
  <span class="price">5,00 lei</span></div>\<close>: of the title selectors only \<open>h2\<close>
  matches, with the text \<open>TV\<close>.
\<close>

definition short_heading_container :: tag where
  "short_heading_container =
     Tag (ascii ''div'') [(ascii ''class'', ascii ''product'')]
       (ascii ''TVTelevision with a 55 inch screen5,00 lei'')
       (ascii ''TVTelevision with a 55 inch screen5,00 lei'')
       [(ascii ''h2'', [Tag (ascii ''h2'') [] (ascii ''TV'') (ascii ''TV'') [] []
                          [ascii ''TV''] None]),
        (ascii ''.price'', [price_span ''5,00 lei''])]
       [anchor ''/p/television-55'' ''Television with a 55 inch screen'']
       [ascii ''TV'', ascii ''Television with a 55 inch screen'', ascii ''5,00 lei'']
       None"

text \<open>
  A listing page with three containers
  \<open><div class="product"><h2><a href=...>name</a></h2><span class="price">...</span></div>\<close>,
  priced \<open>5,00 lei\<close>, \<open>9,99 lei\<close> and \<open>10,01 lei\<close>, and no pagination region.
\<close>

definition product_box :: "string \<Rightarrow> string \<Rightarrow> string \<Rightarrow> tag" where
  "product_box href name price_text =
     Tag (ascii ''div'') [(ascii ''class'', ascii ''product'')]
       (ascii name @ ascii price_text) (ascii name @ ascii price_text)
       [(ascii ''h2 a'', [anchor href name]),
        (ascii ''h2'', [Tag (ascii ''h2'') [] (ascii name) (ascii name)
                          [(ascii ''a'', [anchor href name])] [anchor href name]
                          [ascii name] None]),
        (ascii ''.price'', [price_span price_text]),
        (ascii ''span.price'', [price_span price_text]),
        (class_contains [] ''price'', [price_span price_text]),
        (class_contains ''span'' ''price'', [price_span price_text])]
       [anchor href name] [ascii name, ascii price_text] None"

definition mugs :: "tag list" where
  "mugs =
     [product_box ''/p/1'' ''Blue ceramic mug'' ''5,00 lei'',
      product_box ''/p/2'' ''Red ceramic mug'' ''9,99 lei'',
      product_box ''/p/3'' ''Green ceramic mug'' ''10,01 lei'']"

definition mugs_page :: tag where
  "mugs_page =
     Tag (ascii ''[document]'') [] [] []
       [(ascii ''.product'', mugs), (class_contains [] ''product'', mugs)]
       (concat (map find_links mugs)) (concat (map find_strings mugs)) None"

definition mugs_net :: network where
  "mugs_net t u =
     (if u = ascii ''https://shop.example/mugs?sort_by=price_asc'' then Response mugs_page
      else RequestException)"

definition mug :: "string \<Rightarrow> string \<Rightarrow> pyfloat \<Rightarrow> product" where
  "mug name path p = \<lparr>title = ascii name, price = p, url = ascii ''https://shop.example'' @ ascii path\<rparr>"

section \<open>Evaluation lemmas\<close>

lemma bit_length_numeral:
  "bit_length (numeral (Num.Bit0 n)) = Suc (bit_length (numeral n))"
  "bit_length (numeral (Num.Bit1 n)) = Suc (bit_length (numeral n))"
  "bit_length 1 = 1"
  "bit_length 0 = 0"
  by (subst bit_length.simps, simp add: bit_length.simps)+

lemmas price_eval =
  parse_price_def strip_currency_def is_currency_char_def is_space_def normalise_separators_def
  index_def rfind_def remove_char_def replace_char_def py_float_def is_c_space_def
  is_ascii_digit_def parse_signed_def parse_decimal_def float_gt_def

lemmas double_eval =
  nearest_double_def bit_length_numeral pow2_def pow2_le_frac_def round_half_even_def

lemmas string_eval = sublist_code prefix_code any_in_def

lemmas tag_eval = select_def select_one_def get_attr_def anchor_def price_span_def

lemma double_9_99: "nearest_double 999 100 = Fin (5623870034678907 / 562949953421312)"
  by (simp add: double_eval Let_def)

lemma double_10_01: "nearest_double 1001 100 = Fin (5635129033747333 / 562949953421312)"
  by (simp add: double_eval Let_def)

lemma double_1_999: "nearest_double 1999 1000 = Fin (4501347827556811 / 2251799813685248)"
  by (simp add: double_eval Let_def)

lemma example_lower:
  "lower example_runtime s = map (\<lambda>c. if 65 \<le> c \<and> c \<le> 90 then c + 32 else c) s"
  by (simp add: example_runtime_def)

lemma example_urljoin:
  "urljoin example_runtime base href =
     (if prefix (ascii ''https://'') href then Some href else Some (base @ href))"
  by (simp add: example_runtime_def)

lemma example_float_repr: "float_repr example_runtime = example_repr"
  by (simp add: example_runtime_def)

section \<open>Price Parser: properties\<close>

lemma index_from_found: "c \<in> set s \<Longrightarrow> \<exists>i. index_from c k s = Inr i"
  by (induction s arbitrary: k) auto

lemma count_list_pos: "0 < count_list s c \<Longrightarrow> c \<in> set s"
  by (metis count_notin less_numeral_extra(3))

text \<open>The separator rules never raise: \<open>index\<close> is only asked for a comma that is there.\<close>

lemma normalise_separators_returns: "\<exists>t. normalise_separators s = Inr t"
proof -
  have "\<exists>i. index s COMMA = Inr i" if "0 < count_list s COMMA"
    using index_from_found [OF count_list_pos [OF that]] by (simp add: index_def)
  then show ?thesis
    by (auto simp: normalise_separators_def Let_def split: sum.splits)
qed

text \<open>
  No ASCII letter reaches \<open>float()\<close>: the substitution removes them all and the
  separator rules add none.
\<close>

lemma normalise_separators_chars:
  "normalise_separators s = Inr t \<Longrightarrow> set t \<subseteq> insert DOT (set s)"
  by (auto simp: normalise_separators_def Let_def remove_char_def replace_char_def
      split: if_splits sum.splits)

lemma no_letter_reaches_float:
  assumes "normalise_separators (strip_currency s) = Inr t" and "c \<in> set t"
  shows "\<not> (65 \<le> c \<and> c \<le> 90) \<and> \<not> (97 \<le> c \<and> c \<le> 122)"
proof -
  from normalise_separators_chars [OF assms(1)] assms(2)
  have "c = DOT \<or> c \<in> set (strip_currency s)" by auto
  then show ?thesis by (auto simp: strip_currency_def is_currency_char_def)
qed

lemma parse_price_range:
  "parse_price rt s = PInf \<or> (\<exists>q. parse_price rt s = Fin q \<and> 0 < q \<and> q \<le> 999999)"
proof (cases "parse_price rt s")
  case NInf
  then show ?thesis
    by (auto simp: parse_price_def float_gt_def split: if_splits sum.splits)
next
  case (Fin q)
  then have "\<not> float_le (Fin q) (Fin 0) \<and> \<not> float_gt (Fin q) (Fin 999999)"
    by (auto simp: parse_price_def split: if_splits sum.splits)
  with Fin show ?thesis by (simp add: float_gt_def)
next
  case PInf
  then show ?thesis by simp
qed

text \<open>
  Six of the seven test vectors of the price parser hold, whatever the Unicode tables are:
  \<open>1.999,00\<close> and \<open>1,999.00\<close> parse to 1999, \<open>9,99\<close> to the double 9.99, and
  \<open>15% off\<close>, \<open>0,00\<close> and \<open>1500000\<close> are invalid.
\<close>

lemma parse_price_other_vectors:
  "parse_price rt (ascii ''1.999,00'') = Fin 1999 \<and>
   parse_price rt (ascii ''1,999.00'') = Fin 1999 \<and>
   parse_price rt (ascii ''9,99'') = nearest_double 999 100 \<and>
   parse_price rt (ascii ''15% off'') = PInf \<and>
   parse_price rt (ascii ''0,00'') = PInf \<and>
   parse_price rt (ascii ''1500000'') = PInf"
  by (simp add: price_eval double_eval Let_def)

text \<open>
  Claim C1 fails at the vector \<open>1.999\<close>: \<open>parse_price("1.999")\<close> is the double 1.999,
  not 1999. The text holds one dot and no comma, and the branch that strips dots as thousands
  separators is guarded by \<open>dot_count > 1\<close>, although its comment gives \<open>1.999\<close> as the
  example of European thousands. The branch for commas does read a single separator before
  three digits as thousands: \<open>1,999\<close> parses to 1999.
\<close>

theorem parse_price_single_dot:
  "parse_price example_runtime (ascii ''1.999'') = Fin (4501347827556811 / 2251799813685248) \<and>
   parse_price example_runtime (ascii ''1.999'') \<noteq> Fin 1999 \<and>
   nearest_double 1999 1000 = Fin (4501347827556811 / 2251799813685248) \<and>
   parse_price example_runtime (ascii ''1,999'') = Fin 1999"
  by (simp add: price_eval double_eval Let_def)

text \<open>
  Claim C10. For every string \<open>parse_price\<close> returns a value, which is either
  \<open>float('inf')\<close> or a price above 0 and at most 999999; the empty string gives
  \<open>float('inf')\<close>; the separator rules never raise; and when \<open>float()\<close> raises on the
  text that is left, the result is \<open>float('inf')\<close>.
\<close>

theorem parse_price_total:
  "(parse_price rt s = PInf \<or> (\<exists>q. parse_price rt s = Fin q \<and> 0 < q \<and> q \<le> 999999)) \<and>
   parse_price rt [] = PInf \<and>
   (\<exists>t. normalise_separators (strip_currency s) = Inr t) \<and>
   (normalise_separators (strip_currency s) = Inr t \<and> py_float rt t = Inl e
      \<longrightarrow> parse_price rt s = PInf)"
  using parse_price_range [of rt s] normalise_separators_returns [of "strip_currency s"]
  by (auto simp: parse_price_def)

theorem parse_price_total_witness:
  "normalise_separators (strip_currency (ascii ''12-3 lei'')) = Inr (ascii ''12-3'') \<and>
   py_float example_runtime (ascii ''12-3'') = Inl ValueError \<and>
   parse_price example_runtime (ascii ''12-3 lei'') = PInf"
  using parse_price_total [of example_runtime "ascii ''12-3 lei''" "ascii ''12-3''" ValueError]
  by (simp add: price_eval Let_def)

section \<open>Category Discoverer: properties\<close>

lemma category_of_link_prefix:
  "category_of_link rt cfg base link = Inr (Some u) \<Longrightarrow> prefix base u"
  by (auto simp: category_of_link_def Let_def split: if_splits option.splits)

lemma category_links_result:
  "category_links rt cfg base links C = Inr C' \<Longrightarrow>
   C' = C \<union> {u. \<exists>link \<in> set links. category_of_link rt cfg base link = Inr (Some u)}"
proof (induction links arbitrary: C)
  case Nil
  then show ?case by simp
next
  case (Cons link links)
  show ?case
  proof (cases "category_of_link rt cfg base link")
    case (Inl e)
    with Cons.prems show ?thesis by simp
  next
    case (Inr r)
    show ?thesis
    proof (cases r)
      case None
      with Inr Cons.prems have "category_links rt cfg base links C = Inr C'" by simp
      from Cons.IH [OF this] Inr None show ?thesis by auto
    next
      case (Some u)
      with Inr Cons.prems have "category_links rt cfg base links (insert u C) = Inr C'" by simp
      from Cons.IH [OF this] Inr Some show ?thesis by auto
    qed
  qed
qed

lemma category_selectors_result:
  "category_selectors rt cfg base soup sels C = Inr C' \<Longrightarrow>
   C' = C \<union> {u. \<exists>selector \<in> set sels. \<exists>link \<in> set (select soup selector).
                 category_of_link rt cfg base link = Inr (Some u)}"
proof (induction sels arbitrary: C)
  case Nil
  then show ?case by simp
next
  case (Cons selector rest)
  from Cons.prems obtain C1 where
    1: "category_links rt cfg base (select soup selector) C = Inr C1" and
    2: "category_selectors rt cfg base soup rest C1 = Inr C'"
    by (auto split: sum.splits)
  from category_links_result [OF 1] Cons.IH [OF 2] show ?case by auto
qed

lemma two_menus_fetch:
  "make_request two_menus_net (ascii ''https://shop.example'') 0 = (Inr (Some two_menus_page), 1)"
  by (simp add: make_request_def two_menus_net_def numeral_3_eq_3)

lemma two_menus_categories:
  "get_all_categories example_runtime example_config two_menus_net (ascii ''https://shop.example'') 0
     = (Inr {ascii ''https://shop.example/laptops'', ascii ''https://shop.example/phones''}, 1)"
  by (simp add: get_all_categories_def two_menus_fetch [simplified] menu_selectors_def
      two_menus_page_def tag_eval category_of_link_def example_lower example_urljoin
      example_config_def excluded_keywords_def string_eval Let_def)

text \<open>What the body of the loop over the links keeps, written out.\<close>

lemma category_of_link_kept:
  "category_of_link rt cfg base link = Inr (Some u) \<longleftrightarrow>
     get_attr link (ascii ''href'') \<notin> {[], ascii ''#'', ascii ''/''} \<and>
     urljoin rt base (get_attr link (ascii ''href'')) = Some u \<and>
     prefix base u \<and>
     \<not> any_in excluded_keywords (lower rt u) \<and>
     \<not> any_in (excluded_url_patterns cfg) (lower rt u)"
  by (auto simp: category_of_link_def Let_def split: option.splits)

text \<open>
  Claim C2, as the code has it. When the base page is fetched and the function returns, the
  result is the union over all the selectors of the list, not the links of the first
  selector with a match: a URL is in the result exactly when some selector of the list
  matches a link that the loop body keeps with that URL, that is, a link whose \<open>href\<close>
  is not empty, \<open>#\<close> or \<open>/\<close>, resolves to that URL, which begins with the base URL
  and whose lower-case form holds no excluded keyword and no configured pattern.
\<close>

theorem categories_union_of_all_selectors:
  assumes "make_request net base t = (Inr (Some soup), t')"
    and "get_all_categories rt cfg net base t = (Inr cats, t'')"
  shows "u \<in> cats \<longleftrightarrow>
     (\<exists>selector \<in> set menu_selectors. \<exists>link \<in> set (select soup selector).
        get_attr link (ascii ''href'') \<notin> {[], ascii ''#'', ascii ''/''} \<and>
        urljoin rt base (get_attr link (ascii ''href'')) = Some u \<and>
        prefix base u \<and>
        \<not> any_in excluded_keywords (lower rt u) \<and>
        \<not> any_in (excluded_url_patterns cfg) (lower rt u))"
proof -
  from assms have "category_selectors rt cfg base soup menu_selectors {} = Inr cats"
    by (simp add: get_all_categories_def)
  from category_selectors_result [OF this] show ?thesis
    by (simp add: category_of_link_kept)
qed

theorem categories_union_of_all_selectors_witness:
  "make_request two_menus_net (ascii ''https://shop.example'') 0 = (Inr (Some two_menus_page), 1) \<and>
   get_all_categories example_runtime example_config two_menus_net (ascii ''https://shop.example'') 0
     = (Inr {ascii ''https://shop.example/laptops'', ascii ''https://shop.example/phones''}, 1) \<and>
   (\<exists>selector \<in> set menu_selectors. \<exists>link \<in> set (select two_menus_page selector).
      get_attr link (ascii ''href'') \<notin> {[], ascii ''#'', ascii ''/''} \<and>
      urljoin example_runtime (ascii ''https://shop.example'') (get_attr link (ascii ''href''))
        = Some (ascii ''https://shop.example/laptops'') \<and>
      prefix (ascii ''https://shop.example'') (ascii ''https://shop.example/laptops'') \<and>
      \<not> any_in excluded_keywords (lower example_runtime (ascii ''https://shop.example/laptops'')) \<and>
      \<not> any_in (excluded_url_patterns example_config)
            (lower example_runtime (ascii ''https://shop.example/laptops''))) \<and>
   \<not> (\<exists>selector \<in> set menu_selectors. \<exists>link \<in> set (select two_menus_page selector).
      get_attr link (ascii ''href'') \<notin> {[], ascii ''#'', ascii ''/''} \<and>
      urljoin example_runtime (ascii ''https://shop.example'') (get_attr link (ascii ''href''))
        = Some (ascii ''https://shop.example/cart'') \<and>
      prefix (ascii ''https://shop.example'') (ascii ''https://shop.example/cart'') \<and>
      \<not> any_in excluded_keywords (lower example_runtime (ascii ''https://shop.example/cart'')) \<and>
      \<not> any_in (excluded_url_patterns example_config)
            (lower example_runtime (ascii ''https://shop.example/cart'')))"
proof -
  note th = categories_union_of_all_selectors [OF two_menus_fetch two_menus_categories]
  have in_result: "ascii ''https://shop.example/laptops''
      \<in> {ascii ''https://shop.example/laptops'', ascii ''https://shop.example/phones''}"
    by simp
  have not_in_result: "ascii ''https://shop.example/cart''
      \<notin> {ascii ''https://shop.example/laptops'', ascii ''https://shop.example/phones''}"
    by simp
  from th [of "ascii ''https://shop.example/laptops''"] in_result
    th [of "ascii ''https://shop.example/cart''"] not_in_result
    two_menus_fetch two_menus_categories
  show ?thesis by blast
qed

text \<open>
  Claim C2 fails on the page with two menus: the first selector with a match is
  \<open>nav a\<close>, which matches the links to \<open>/phones\<close> and to another site, and the result
  also holds \<open>/laptops\<close>, which only \<open>.menu a\<close> matches. The links to the cart, to
  \<open>#\<close> and to the gift cards are dropped by the filters.
\<close>

theorem categories_first_match_counterexample:
  "select two_menus_page (ascii ''nav a'')
     = [anchor ''/phones'' ''Phones'', anchor ''https://other.example/deals'' ''Deals''] \<and>
   get_all_categories example_runtime example_config two_menus_net (ascii ''https://shop.example'') 0
     = (Inr {ascii ''https://shop.example/laptops'', ascii ''https://shop.example/phones''}, 1)"
  using two_menus_categories by (simp add: two_menus_page_def select_def)

text \<open>
  Claim C9. Every category that \<open>get_all_categories\<close> returns begins with the base URL
  it was given.
\<close>

theorem categories_same_origin:
  assumes "get_all_categories rt cfg net base t = (Inr cats, t')"
  shows "\<forall>c \<in> cats. prefix base c"
proof (cases "make_request net base t")
  case (Pair r t1)
  show ?thesis
  proof (cases r)
    case (Inl e)
    with Pair assms show ?thesis by (simp add: get_all_categories_def)
  next
    case (Inr d)
    show ?thesis
    proof (cases d)
      case None
      with Pair Inr assms show ?thesis by (auto simp: get_all_categories_def)
    next
      case (Some soup)
      with Pair Inr assms
      have "category_selectors rt cfg base soup menu_selectors {} = Inr cats"
        by (simp add: get_all_categories_def)
      from category_selectors_result [OF this] show ?thesis
        by (auto dest: category_of_link_prefix)
    qed
  qed
qed

theorem categories_same_origin_witness:
  "get_all_categories example_runtime example_config two_menus_net (ascii ''https://shop.example'') 0
     = (Inr {ascii ''https://shop.example/laptops'', ascii ''https://shop.example/phones''}, 1) \<and>
   prefix (ascii ''https://shop.example'') (ascii ''https://shop.example/laptops'') \<and>
   prefix (ascii ''https://shop.example'') (ascii ''https://shop.example/phones'')"
  using categories_same_origin [OF two_menus_categories] two_menus_categories
  by blast

section \<open>Pagination Discoverer: properties\<close>

lemma prefix_pagination_links:
  "prefix pages (pagination_links rt category_url links pages)"
proof (induction links arbitrary: pages)
  case Nil
  then show ?case by simp
next
  case (Cons link links)
  have "prefix pages (pagination_links rt category_url links (pages @ [u]))" for u
    using Cons.IH [of "pages @ [u]"] by (meson append_prefixD)
  with Cons.IH [of pages] show ?case
    by (auto simp: Let_def split: option.splits)
qed

lemma prefix_find_pagination:
  "prefix pages (find_pagination rt category_url soup sels pages)"
  by (induction sels) (auto simp: Let_def prefix_pagination_links)

text \<open>
  Claim C6. The list that \<open>get_all_pages\<close> returns starts with the category URL followed
  by \<open>?sort_by=price_asc\<close> (or \<open>&sort_by=price_asc\<close> when the URL has a \<open>?\<close>). When
  \<open>make_request\<close> does not return a response for that URL, the list is that URL alone.
\<close>

theorem first_page_sorted:
  "(\<exists>rest. fst (get_all_pages rt net category_url t) = sorted_url category_url # rest) \<and>
   sorted_url category_url =
     (if 63 \<in> set category_url then category_url @ ascii ''&sort_by=price_asc''
      else category_url @ ascii ''?sort_by=price_asc'') \<and>
   ((\<forall>soup. fst (make_request net (sorted_url category_url) t) \<noteq> Inr (Some soup)) \<longrightarrow>
      fst (get_all_pages rt net category_url t) = [sorted_url category_url])"
proof -
  have "\<exists>rest. find_pagination rt category_url soup pagination_selectors [sorted_url category_url]
           = sorted_url category_url # rest" for soup
    using prefix_find_pagination [of "[sorted_url category_url]" rt category_url soup
        pagination_selectors]
    by (auto simp: prefix_def)
  then have "\<exists>rest. fst (get_all_pages rt net category_url t) = sorted_url category_url # rest"
    by (auto simp: get_all_pages_def Let_def split: prod.splits sum.splits option.splits)
  moreover have "sorted_url category_url =
     (if 63 \<in> set category_url then category_url @ ascii ''&sort_by=price_asc''
      else category_url @ ascii ''?sort_by=price_asc'')"
    by (simp add: sorted_url_def)
  moreover have
    "(\<forall>soup. fst (make_request net (sorted_url category_url) t) \<noteq> Inr (Some soup)) \<longrightarrow>
      fst (get_all_pages rt net category_url t) = [sorted_url category_url]"
    by (auto simp: get_all_pages_def Let_def split: prod.splits sum.splits option.splits)
  ultimately show ?thesis by blast
qed

theorem first_page_sorted_witness:
  "(\<forall>soup. fst (make_request net_down (sorted_url (ascii ''https://shop.example/phones'')) 0)
      \<noteq> Inr (Some soup)) \<and>
   fst (get_all_pages example_runtime net_down (ascii ''https://shop.example/phones'') 0)
     = [ascii ''https://shop.example/phones?sort_by=price_asc'']"
proof -
  have h: "\<forall>soup. fst (make_request net_down (sorted_url (ascii ''https://shop.example/phones'')) 0)
      \<noteq> Inr (Some soup)"
    by (simp add: make_request_def net_down_def numeral_3_eq_3)
  have "sorted_url (ascii ''https://shop.example/phones'')
          = ascii ''https://shop.example/phones?sort_by=price_asc''"
    by (simp add: sorted_url_def)
  with h first_page_sorted [of example_runtime net_down "ascii ''https://shop.example/phones''" 0]
  show ?thesis by simp
qed

section \<open>Extractor: properties\<close>

text \<open>
  Claim C8 fails on the container with two links and no title element: the code takes the
  text of the first link that is longer than 10 characters (15 characters here), although a
  later link of the container has a longer text (31 characters). The comment above the loop
  reads "use the longest link text".
\<close>

theorem title_fallback_takes_first_link:
  "extract_title two_links_container
     = (Some (ascii ''Short link text''), Some (anchor ''/p/1'' ''Short link text'')) \<and>
   find_links two_links_container
     = [anchor ''/p/1'' ''Short link text'', anchor ''/p/1'' ''A much longer product link text''] \<and>
   length (get_text_strip (anchor ''/p/1'' ''Short link text'')) = 15 \<and>
   length (get_text_strip (anchor ''/p/1'' ''A much longer product link text'')) = 31"
  by (simp add: extract_title_def two_links_container_def title_selectors_def tag_eval
      no_title_def)

text \<open>
  A second way in which the fallback is missed: a selector that matched an element with a
  text of at most 5 characters leaves that text in \<open>title\<close>, so \<open>not title\<close> is false,
  the links are not looked at, and the short text becomes the title of the product.
\<close>

lemma short_title_price: "parse_price example_runtime (ascii ''5,00 lei'') = Fin 5"
  by (simp add: price_eval double_eval example_runtime_def Let_def)

lemma title_fallback_skipped_after_short_match:
  "extract_title short_heading_container = (Some (ascii ''TV''), None) \<and>
   first_long_link (find_links short_heading_container)
     = Some (anchor ''/p/television-55'' ''Television with a 55 inch screen'') \<and>
   extract_product example_runtime example_config short_heading_container
     = Some \<lparr>title = ascii ''TV'', price = Fin 5,
             url = ascii ''https://shop.example/p/television-55''\<rparr>"
  by (simp add: extract_product_def extract_title_def short_heading_container_def
      title_selectors_def tag_eval no_title_def strip_def is_space_def find_link_elem_def
      find_price_def price_selectors_def float_gt_def example_lower example_urljoin
      example_config_def string_eval class_contains_def short_title_price [simplified] Let_def)

section \<open>Dedup Store: properties\<close>

subsection \<open>Reading back what was written\<close>

lemma hex_value_digit: "d < 16 \<Longrightarrow> hex_value (hex_digit d) = Some d"
  by (simp add: hex_value_def hex_digit_def)

lemma hex4_control: "c < 32 \<Longrightarrow> hex4_value 48 48 (hex_digit (c div 16)) (hex_digit (c mod 16)) = Some c"
proof -
  assume "c < 32"
  then have "c div 16 < 16" by simp
  then show ?thesis
    by (simp add: hex4_value_def hex_value_digit) (simp add: hex_value_def)
qed

lemma scan_string_escaped:
  "scan_string (json_escape c @ t) = add_char c (scan_string t)"
proof -
  consider "c = 34" | "c = 92" | "c = 10" | "c = 13" | "c = 9" | "c = 8" | "c = 12"
    | "c < 32" "c \<noteq> 10" "c \<noteq> 13" "c \<noteq> 9" "c \<noteq> 8" "c \<noteq> 12"
    | "32 \<le> c" "c \<noteq> 34" "c \<noteq> 92"
    by linarith
  then show ?thesis
  proof cases
    case 8
    then have "json_escape c = [92, 117, 48, 48, hex_digit (c div 16), hex_digit (c mod 16)]"
      by (auto simp: json_escape_def)
    with 8 hex4_control [of c] show ?thesis
      by (simp add: scan_string.simps(2) scan_escape_def scan_unicode_def)
  next
    case 9
    then show ?thesis by (simp add: json_escape_def scan_string.simps(2))
  qed (simp_all add: json_escape_def scan_string.simps(2) scan_escape_def unescape_def)
qed

lemma scan_string_encoded:
  "scan_string (concat (map json_escape s) @ 34 # rest) = Some (s, rest)"
  by (induction s) (simp_all add: scan_string.simps(2) scan_string_escaped add_char_def)


lemma skip_space_simps:
  "skip_space [] = []"
  "is_json_space c \<Longrightarrow> skip_space (c # t) = skip_space t"
  "\<not> is_json_space c \<Longrightarrow> skip_space (c # t) = c # t"
  by (simp_all add: skip_space_def)

lemma json_space_chars:
  "is_json_space 10" "is_json_space 32" "\<not> is_json_space 34" "\<not> is_json_space 44"
  "\<not> is_json_space 91" "\<not> is_json_space 93"
  by (simp_all add: is_json_space_def)

lemma parse_elements_encoded:
  "parse_elements (encode_string x @ rest) =
     (case skip_space rest of
        [] \<Rightarrow> None
      | d # ds \<Rightarrow>
          if d = 93 then (if skip_space ds = [] then Some [x] else None)
          else if d = 44 then map_option ((#) x) (parse_elements (skip_space ds))
          else None)"
  by (subst parse_elements.simps) (simp add: encode_string_def scan_string_encoded)

lemma parse_elements_complete:
  "parse_elements (encode_string x @ concat (map (\<lambda>y. [44, 10, 32, 32] @ encode_string y) ys)
      @ [10, 93]) = Some (x # ys)"
proof (induction ys arbitrary: x)
  case Nil
  show ?case
    by (simp add: parse_elements_encoded skip_space_simps json_space_chars)
next
  case (Cons y ys)
  have "skip_space (10 # 32 # 32 # encode_string y @ t) = encode_string y @ t" for t
    by (simp add: skip_space_simps json_space_chars encode_string_def)
  with Cons.IH [of y] show ?case
    by (simp add: parse_elements_encoded skip_space_simps json_space_chars)
qed

lemma parse_elements_truncated:
  "parse_elements (encode_string x @ concat (map (\<lambda>y. [44, 10, 32, 32] @ encode_string y) ys))
     = None"
proof (induction ys arbitrary: x)
  case Nil
  show ?case
    using parse_elements_encoded [of x "[]"] by (simp add: skip_space_simps)
next
  case (Cons y ys)
  have "skip_space (10 # 32 # 32 # encode_string y @ t) = encode_string y @ t" for t
    by (simp add: skip_space_simps json_space_chars encode_string_def)
  with Cons.IH [of y] show ?case
    by (simp add: parse_elements_encoded skip_space_simps json_space_chars)
qed

lemma json_roundtrip: "json_string_array (concat (json_chunks xs)) = Some xs"
proof (cases xs)
  case Nil
  then show ?thesis
    by (simp add: json_chunks_def json_string_array_def skip_space_simps json_space_chars)
next
  case (Cons x ys)
  have "skip_space (10 # 32 # 32 # encode_string x @ t) = encode_string x @ t" for t
    by (simp add: skip_space_simps json_space_chars encode_string_def)
  moreover have "encode_string x @ t = 34 # tl (encode_string x @ t)" for t
    by (simp add: encode_string_def)
  ultimately show ?thesis
    using parse_elements_complete [of x ys] Cons
    by (simp add: json_chunks_def json_string_array_def skip_space_simps json_space_chars
        encode_string_def)
qed


lemma utf8_encodable_simps:
  "utf8_encodable [] \<longleftrightarrow> True"
  "utf8_encodable (c # s) \<longleftrightarrow> (c < 55296 \<or> (57343 < c \<and> c \<le> 1114111)) \<and> utf8_encodable s"
  "utf8_encodable (s @ t) \<longleftrightarrow> utf8_encodable s \<and> utf8_encodable t"
  by (simp_all add: utf8_encodable_def)

lemma utf8_encodable_escape: "utf8_encodable (json_escape c) \<longleftrightarrow> utf8_encodable [c]"
  by (auto simp: json_escape_def utf8_encodable_def hex_digit_def)

lemma utf8_encodable_encode_string: "utf8_encodable (encode_string s) \<longleftrightarrow> utf8_encodable s"
proof -
  have "utf8_encodable (concat (map json_escape s)) \<longleftrightarrow> utf8_encodable s"
  proof (induction s)
    case Nil
    show ?case by simp
  next
    case (Cons c s)
    from Cons show ?case by (simp add: utf8_encodable_escape utf8_encodable_simps)
  qed
  then show ?thesis by (simp add: encode_string_def utf8_encodable_simps)
qed

lemma json_chunks_Cons:
  "json_chunks (x # ys) =
     (91 # 10 # 32 # 32 # encode_string x)
       # map (\<lambda>y. 44 # 10 # 32 # 32 # encode_string y) ys @ [[10], [93]]"
  by (simp add: json_chunks_def)

lemma utf8_encodable_chunks:
  "utf8_encodable (91 # 10 # 32 # 32 # encode_string y) \<longleftrightarrow> utf8_encodable y"
  "utf8_encodable (44 # 10 # 32 # 32 # encode_string y) \<longleftrightarrow> utf8_encodable y"
  by (simp_all add: utf8_encodable_simps utf8_encodable_encode_string)

lemma written_text_all:
  assumes "list_all utf8_encodable xs"
  shows "written_text xs = concat (json_chunks xs)"
proof -
  have "\<forall>c \<in> set (json_chunks xs). utf8_encodable c"
  proof (cases xs)
    case Nil
    then show ?thesis by (simp add: json_chunks_def utf8_encodable_simps)
  next
    case (Cons x ys)
    with assms show ?thesis
      by (auto simp: json_chunks_Cons utf8_encodable_simps utf8_encodable_encode_string
          list_all_iff)
  qed
  then have "takeWhile utf8_encodable (json_chunks xs) = json_chunks xs"
    by (simp add: takeWhile_eq_all_conv)
  then show ?thesis unfolding written_text_def by (rule arg_cong)
qed

lemma skip_to_element: "skip_space (10 # 32 # 32 # encode_string x @ t) = encode_string x @ t"
  by (simp add: skip_space_simps json_space_chars encode_string_def)

lemma json_array_elements:
  "json_string_array (91 # 10 # 32 # 32 # encode_string x @ t) = parse_elements (encode_string x @ t)"
proof -
  obtain r where r: "encode_string x @ t = 34 # r"
    by (simp add: encode_string_def)
  show ?thesis
    unfolding r by (simp add: json_string_array_def skip_space_simps json_space_chars)
qed

lemma written_text_some:
  assumes "\<not> list_all utf8_encodable xs"
  shows "json_string_array (written_text xs) = None"
proof (cases xs)
  case Nil
  with assms show ?thesis by simp
next
  case (Cons x ys)
  let ?f = "\<lambda>y. 44 # 10 # 32 # 32 # encode_string y"
  show ?thesis
  proof (cases "utf8_encodable x")
    case False
    then have "written_text xs = []"
      by (simp add: written_text_def Cons json_chunks_Cons utf8_encodable_chunks)
    then show ?thesis by (simp add: json_string_array_def skip_space_def)
  next
    case True
    with assms Cons have "\<exists>y \<in> set ys. \<not> utf8_encodable y" by (auto simp: list_all_iff)
    then have "\<exists>c \<in> set (map ?f ys). \<not> utf8_encodable c"
      by (auto simp: utf8_encodable_chunks)
    then have "takeWhile utf8_encodable (map ?f ys @ [[10], [93]])
                 = takeWhile utf8_encodable (map ?f ys)"
      by (metis takeWhile_append1)
    also have "\<dots> = map ?f (takeWhile utf8_encodable ys)"
      by (simp add: takeWhile_map comp_def utf8_encodable_chunks)
    finally have "written_text xs =
        91 # 10 # 32 # 32 # encode_string x @ concat (map ?f (takeWhile utf8_encodable ys))"
      using True by (simp add: written_text_def Cons json_chunks_Cons utf8_encodable_chunks)
    then show ?thesis
      using parse_elements_truncated [of x "takeWhile utf8_encodable ys"]
      by (simp add: json_array_elements)
  qed
qed

text \<open>
  Claim C7, as the code has it. Every finite set of keys has a listing. On a disk that
  works, whichever listing is saved: if no key of the set holds a surrogate code point, the
  file is the whole JSON text and loading it gives back the set that was saved, whatever
  the set in memory was before; if some key holds one, the write stops at that key, and
  loading the file that is left gives the empty set.
\<close>

theorem seen_roundtrip:
  assumes "finite S"
  shows "(\<exists>xs. listing_of xs S) \<and>
         (\<forall>xs. listing_of xs S \<longrightarrow>
            load_seen_products (save_seen_products DiskOk old xs) S0
              = (if \<forall>k \<in> S. utf8_encodable k then S else {}))"
proof -
  have "load_seen_products (save_seen_products DiskOk old xs) S0
          = (if \<forall>k \<in> set xs. utf8_encodable k then set xs else {})" for xs
    using written_text_all [of xs] written_text_some [of xs]
    by (auto simp: load_seen_products_def save_seen_products_def json_roundtrip list_all_iff)
  with finite_distinct_list [OF assms] show ?thesis
    by (auto simp: listing_of_def)
qed

theorem seen_roundtrip_witness:
  "finite {ascii ''a_5.0'', ascii ''b_7.5''} \<and>
   listing_of [ascii ''b_7.5'', ascii ''a_5.0''] {ascii ''a_5.0'', ascii ''b_7.5''} \<and>
   utf8_encodable (ascii ''a_5.0'') \<and> utf8_encodable (ascii ''b_7.5'') \<and>
   load_seen_products (save_seen_products DiskOk Missing [ascii ''b_7.5'', ascii ''a_5.0'']) {}
     = {ascii ''a_5.0'', ascii ''b_7.5''}"
proof -
  have f: "finite {ascii ''a_5.0'', ascii ''b_7.5''}" by simp
  have l: "listing_of [ascii ''b_7.5'', ascii ''a_5.0''] {ascii ''a_5.0'', ascii ''b_7.5''}"
    by (simp add: listing_of_def insert_commute)
  have e: "utf8_encodable (ascii ''a_5.0'')" "utf8_encodable (ascii ''b_7.5'')"
    by (simp_all add: utf8_encodable_def)
  then have "\<forall>k \<in> {ascii ''a_5.0'', ascii ''b_7.5''}. utf8_encodable k" by blast
  with seen_roundtrip [OF f, of Missing "{}"] l
  have "load_seen_products (save_seen_products DiskOk Missing [ascii ''b_7.5'', ascii ''a_5.0'']) {}
     = {ascii ''a_5.0'', ascii ''b_7.5''}"
    by (metis (no_types, lifting))
  with f l e show ?thesis by blast
qed

text \<open>
  Claim C7 fails on a set with a key that holds the surrogate code point \<open>D800\<close>: the
  first chunk cannot be encoded, nothing is written to the emptied file, and loading it
  gives the empty set instead of the set that was saved.
\<close>

theorem seen_roundtrip_counterexample:
  "listing_of [surrogate_key] {surrogate_key} \<and>
   save_seen_products DiskOk Missing [surrogate_key] = Content [] \<and>
   load_seen_products (save_seen_products DiskOk Missing [surrogate_key]) {} = {} \<and>
   load_seen_products (save_seen_products DiskOk Missing [surrogate_key]) {} \<noteq> {surrogate_key}"
proof -
  have "\<not> utf8_encodable (91 # 10 # 32 # 32 # encode_string surrogate_key)"
    by (simp add: utf8_encodable_chunks) (simp add: surrogate_key_def utf8_encodable_def)
  then have "save_seen_products DiskOk Missing [surrogate_key] = Content []"
    by (simp add: save_seen_products_def written_text_def json_chunks_Cons)
  then show ?thesis
    by (simp add: listing_of_def load_seen_products_def json_string_array_def skip_space_def)
qed

section \<open>Scan Orchestrator: properties\<close>

subsection \<open>The loop over the products of a page\<close>

lemma scan_products_step:
  assumes "scan_products rt (p # ps) seen found = (seen', found', sent)"
  obtains "product_id rt p \<in> seen" "scan_products rt ps seen found = (seen', found', sent)"
  | sent1 where "product_id rt p \<notin> seen" "sent = p # sent1"
      "scan_products rt ps (insert (product_id rt p) seen) (found + 1) = (seen', found', sent1)"
  using assms by (auto split: if_splits prod.splits)

lemma scan_products_keys:
  "scan_products rt ps seen found = (seen', found', sent) \<Longrightarrow>
   seen' = seen \<union> product_id rt ` set ps"
proof (induction ps arbitrary: seen found sent)
  case Nil
  then show ?case by simp
next
  case (Cons p ps)
  from Cons.prems show ?case
  proof (cases rule: scan_products_step)
    case 1
    from Cons.IH [OF 1(2)] 1(1) show ?thesis by auto
  next
    case (2 sent1)
    from Cons.IH [OF 2(3)] show ?thesis by auto
  qed
qed

lemma scan_products_sent_subset:
  "scan_products rt ps seen found = (seen', found', sent) \<Longrightarrow> set sent \<subseteq> set ps"
proof (induction ps arbitrary: seen found sent)
  case Nil
  then show ?case by simp
next
  case (Cons p ps)
  from Cons.prems show ?case
  proof (cases rule: scan_products_step)
    case 1
    from Cons.IH [OF 1(2)] show ?thesis by auto
  next
    case (2 sent1)
    from Cons.IH [OF 2(3)] 2(2) show ?thesis by auto
  qed
qed

lemma scan_products_sent_unseen:
  "scan_products rt ps seen found = (seen', found', sent) \<Longrightarrow> k \<in> seen \<Longrightarrow>
   filter (\<lambda>q. product_id rt q = k) sent = []"
proof (induction ps arbitrary: seen found sent)
  case Nil
  then show ?case by simp
next
  case (Cons p ps)
  from Cons.prems(1) show ?case
  proof (cases rule: scan_products_step)
    case 1
    from Cons.IH [OF 1(2) Cons.prems(2)] show ?thesis .
  next
    case (2 sent1)
    from Cons.prems(2) have "k \<in> insert (product_id rt p) seen" by simp
    from Cons.IH [OF 2(3) this] 2(1,2) Cons.prems(2) show ?thesis by auto
  qed
qed

lemma scan_products_sent_once:
  "scan_products rt ps seen found = (seen', found', sent) \<Longrightarrow> k \<notin> seen \<Longrightarrow>
   k \<in> product_id rt ` set ps \<Longrightarrow> length (filter (\<lambda>q. product_id rt q = k) sent) = 1"
proof (induction ps arbitrary: seen found sent)
  case Nil
  then show ?case by simp
next
  case (Cons p ps)
  from Cons.prems(1) show ?case
  proof (cases rule: scan_products_step)
    case 1
    with Cons.prems have "k \<in> product_id rt ` set ps" by auto
    from Cons.IH [OF 1(2) Cons.prems(2) this] show ?thesis .
  next
    case (2 sent1)
    show ?thesis
    proof (cases "product_id rt p = k")
      case True
      then have "k \<in> insert (product_id rt p) seen" by simp
      from scan_products_sent_unseen [OF 2(3) this] 2(2) True show ?thesis by simp
    next
      case False
      with Cons.prems have "k \<notin> insert (product_id rt p) seen" "k \<in> product_id rt ` set ps"
        by auto
      from Cons.IH [OF 2(3) this] 2(2) False show ?thesis by simp
    qed
  qed
qed

lemma scan_products_all_seen:
  "product_id rt ` set ps \<subseteq> seen \<Longrightarrow> scan_products rt ps seen found = (seen, found, [])"
  by (induction ps) auto

lemma product_id_price_change:
  "url q = url p \<Longrightarrow> float_repr rt (price q) \<noteq> float_repr rt (price p) \<Longrightarrow>
   product_id rt q \<noteq> product_id rt p"
  by (simp add: product_id_def)

text \<open>
  Claim C4, for the loop over the products that passed the price filter, run by one task.
  A product \<open>p1\<close> whose key is in the set of seen keys gets no alert. A product \<open>p2\<close> of
  the page with the URL of \<open>p1\<close> and a price that prints differently has another key; if
  that key is not yet in the set, exactly one alert is sent for it, however often the
  product occurs on the page. Running the loop again on the same products sends nothing.
\<close>

theorem dedup_notifications:
  assumes "scan_products rt ps seen found = (seen', found', sent)"
  shows "(product_id rt p1 \<in> seen \<longrightarrow>
            filter (\<lambda>q. product_id rt q = product_id rt p1) sent = [])
       \<and> (p2 \<in> set ps \<and> url p2 = url p1
            \<and> float_repr rt (price p2) \<noteq> float_repr rt (price p1)
            \<and> product_id rt p2 \<notin> seen \<longrightarrow>
              product_id rt p2 \<noteq> product_id rt p1
            \<and> length (filter (\<lambda>q. product_id rt q = product_id rt p2) sent) = 1)
       \<and> scan_products rt ps seen' found' = (seen', found', [])"
proof -
  have "product_id rt ` set ps \<subseteq> seen'"
    using scan_products_keys [OF assms] by simp
  then have "scan_products rt ps seen' found' = (seen', found', [])"
    by (rule scan_products_all_seen)
  with scan_products_sent_unseen [OF assms] scan_products_sent_once [OF assms]
  show ?thesis by (auto simp: product_id_price_change)
qed

lemma example_keys:
  "product_id example_runtime (mug ''Blue ceramic mug'' ''/p/1'' (Fin 5))
     = ascii ''https://shop.example/p/1_5.0''"
  "product_id example_runtime (mug ''Blue ceramic mug'' ''/p/1'' (Fin (15 / 2)))
     = ascii ''https://shop.example/p/1_7.5''"
  by (simp_all add: product_id_def mug_def example_float_repr example_repr_def)

lemma example_rescan:
  "scan_products example_runtime
     [mug ''Blue ceramic mug'' ''/p/1'' (Fin 5), mug ''Blue ceramic mug'' ''/p/1'' (Fin (15 / 2)),
      mug ''Blue ceramic mug'' ''/p/1'' (Fin (15 / 2))]
     {ascii ''https://shop.example/p/1_5.0''} 0
   = ({ascii ''https://shop.example/p/1_7.5'', ascii ''https://shop.example/p/1_5.0''}, 1,
      [mug ''Blue ceramic mug'' ''/p/1'' (Fin (15 / 2))])"
  by (simp add: example_keys [simplified])

theorem dedup_notifications_witness:
  "scan_products example_runtime
     [mug ''Blue ceramic mug'' ''/p/1'' (Fin 5), mug ''Blue ceramic mug'' ''/p/1'' (Fin (15 / 2)),
      mug ''Blue ceramic mug'' ''/p/1'' (Fin (15 / 2))]
     {ascii ''https://shop.example/p/1_5.0''} 0
   = ({ascii ''https://shop.example/p/1_7.5'', ascii ''https://shop.example/p/1_5.0''}, 1,
      [mug ''Blue ceramic mug'' ''/p/1'' (Fin (15 / 2))]) \<and>
   product_id example_runtime (mug ''Blue ceramic mug'' ''/p/1'' (Fin 5))
     \<in> {ascii ''https://shop.example/p/1_5.0''} \<and>
   url (mug ''Blue ceramic mug'' ''/p/1'' (Fin (15 / 2)))
     = url (mug ''Blue ceramic mug'' ''/p/1'' (Fin 5)) \<and>
   float_repr example_runtime (price (mug ''Blue ceramic mug'' ''/p/1'' (Fin (15 / 2))))
     \<noteq> float_repr example_runtime (price (mug ''Blue ceramic mug'' ''/p/1'' (Fin 5))) \<and>
   product_id example_runtime (mug ''Blue ceramic mug'' ''/p/1'' (Fin (15 / 2)))
     \<notin> {ascii ''https://shop.example/p/1_5.0''} \<and>
   filter (\<lambda>q. product_id example_runtime q
                 = product_id example_runtime (mug ''Blue ceramic mug'' ''/p/1'' (Fin 5)))
     [mug ''Blue ceramic mug'' ''/p/1'' (Fin (15 / 2))] = [] \<and>
   length (filter (\<lambda>q. product_id example_runtime q
                 = product_id example_runtime (mug ''Blue ceramic mug'' ''/p/1'' (Fin (15 / 2))))
     [mug ''Blue ceramic mug'' ''/p/1'' (Fin (15 / 2))]) = 1"
proof -
  let ?p1 = "mug ''Blue ceramic mug'' ''/p/1'' (Fin 5)"
  let ?p2 = "mug ''Blue ceramic mug'' ''/p/1'' (Fin (15 / 2))"
  have h1: "product_id example_runtime ?p1 \<in> {ascii ''https://shop.example/p/1_5.0''}"
    by (simp add: example_keys)
  have h2: "?p2 \<in> set [?p1, ?p2, ?p2]" by simp
  have h3: "url ?p2 = url ?p1" by (simp add: mug_def)
  have h4: "float_repr example_runtime (price ?p2) \<noteq> float_repr example_runtime (price ?p1)"
    by (simp add: mug_def example_float_repr example_repr_def)
  have h5: "product_id example_runtime ?p2 \<notin> {ascii ''https://shop.example/p/1_5.0''}"
    by (simp add: example_keys)
  from dedup_notifications [OF example_rescan, of ?p1 ?p2] h1 h2 h3 h4 h5
  have "filter (\<lambda>q. product_id example_runtime q = product_id example_runtime ?p1) [?p2] = [] \<and>
        length (filter (\<lambda>q. product_id example_runtime q = product_id example_runtime ?p2) [?p2]) = 1"
    by blast
  with example_rescan h1 h3 h4 h5 show ?thesis by blast
qed

subsection \<open>The price threshold\<close>

lemma mug_prices:
  "parse_price example_runtime (ascii ''5,00 lei'') = Fin 5"
  "parse_price example_runtime (ascii ''9,99 lei'') = nearest_double 999 100"
  "parse_price example_runtime (ascii ''10,01 lei'') = nearest_double 1001 100"
  by (simp_all add: price_eval double_eval example_runtime_def Let_def)

lemmas extract_eval =
  extract_product_def extract_title_def title_selectors_def product_box_def tag_eval strip_def
  is_space_def no_title_def find_link_elem_def find_price_def price_selectors_def float_gt_def
  mug_def example_lower example_urljoin example_config_def string_eval class_contains_def
  Let_def

lemma extract_mugs:
  "extract_product example_runtime example_config
     (product_box ''/p/1'' ''Blue ceramic mug'' ''5,00 lei'')
     = Some (mug ''Blue ceramic mug'' ''/p/1'' (Fin 5))"
  "extract_product example_runtime example_config
     (product_box ''/p/2'' ''Red ceramic mug'' ''9,99 lei'')
     = Some (mug ''Red ceramic mug'' ''/p/2'' (nearest_double 999 100))"
  "extract_product example_runtime example_config
     (product_box ''/p/3'' ''Green ceramic mug'' ''10,01 lei'')
     = Some (mug ''Green ceramic mug'' ''/p/3'' (nearest_double 1001 100))"
  by (simp_all add: extract_eval mug_prices [simplified] double_9_99 double_10_01)

lemma mugs_fetch:
  "make_request mugs_net (ascii ''https://shop.example/mugs?sort_by=price_asc'') t
     = (Inr (Some mugs_page), Suc t)"
  by (simp add: make_request_def mugs_net_def numeral_3_eq_3)

lemma mugs_products:
  "parse_products example_runtime example_config mugs_net
     (ascii ''https://shop.example/mugs?sort_by=price_asc'') t
   = (Inr [mug ''Blue ceramic mug'' ''/p/1'' (Fin 5),
           mug ''Red ceramic mug'' ''/p/2'' (nearest_double 999 100),
           mug ''Green ceramic mug'' ''/p/3'' (nearest_double 1001 100)], Suc t)"
  by (simp add: parse_products_def mugs_fetch [simplified] product_containers_def
      container_selectors_def mugs_page_def select_def mugs_def List.map_filter_simps
      extract_mugs)

text \<open>
  Claim C5. When a page yields the list \<open>products\<close>, the scan of that page adds to
  \<open>products_checked\<close> the number of products whose price is at most \<open>max_price\<close>,
  sends alerts only for such products, and afterwards holds the key of every such product;
  the comparison is \<open>\<le>\<close>. With the threshold 10.0, a candidate priced 9.99 or 10.0 is
  kept and one priced 10.01 is dropped.
\<close>

theorem threshold_inclusive:
  assumes "parse_products rt cfg net page_url (clock st) = (Inr products, t')"
  shows "(\<exists>found' sent st'.
            scan_pages rt cfg net [page_url] checked found st =
              ((checked + length (filter (\<lambda>p. float_le (price p) (max_price cfg)) products),
                found', False), st') \<and>
            alerts st' = alerts st @ sent \<and>
            (\<forall>p \<in> set sent. p \<in> set products \<and> float_le (price p) (max_price cfg)) \<and>
            (\<forall>p \<in> set products. float_le (price p) (max_price cfg)
                \<longrightarrow> product_id rt p \<in> seen_products st'))
       \<and> filtered_products (cfg\<lparr>max_price := Fin 10\<rparr>)
            [q\<lparr>price := nearest_double 999 100\<rparr>, q\<lparr>price := nearest_double 1001 100\<rparr>,
             q\<lparr>price := Fin 10\<rparr>]
          = [q\<lparr>price := nearest_double 999 100\<rparr>, q\<lparr>price := Fin 10\<rparr>]"
proof -
  obtain seen' found' sent where
    sp: "scan_products rt (filtered_products cfg products) (seen_products st) found
           = (seen', found', sent)"
    by (cases "scan_products rt (filtered_products cfg products) (seen_products st) found") auto
  let ?st' = "st\<lparr>seen_products := seen', clock := t', alerts := alerts st @ sent\<rparr>"
  have "scan_pages rt cfg net [page_url] checked found st =
          ((checked + length (filter (\<lambda>p. float_le (price p) (max_price cfg)) products),
            found', False), ?st')"
    using assms sp by (simp add: filtered_products_def)
  moreover have "alerts ?st' = alerts st @ sent" by simp
  moreover have "\<forall>p \<in> set sent. p \<in> set products \<and> float_le (price p) (max_price cfg)"
    using scan_products_sent_subset [OF sp] by (auto simp: filtered_products_def)
  moreover have "\<forall>p \<in> set products. float_le (price p) (max_price cfg)
                \<longrightarrow> product_id rt p \<in> seen_products ?st'"
    using scan_products_keys [OF sp] by (auto simp: filtered_products_def)
  moreover have "filtered_products (cfg\<lparr>max_price := Fin 10\<rparr>)
            [q\<lparr>price := nearest_double 999 100\<rparr>, q\<lparr>price := nearest_double 1001 100\<rparr>,
             q\<lparr>price := Fin 10\<rparr>]
          = [q\<lparr>price := nearest_double 999 100\<rparr>, q\<lparr>price := Fin 10\<rparr>]"
    by (simp add: filtered_products_def double_9_99 double_10_01)
  ultimately show ?thesis by blast
qed

theorem threshold_inclusive_witness:
  "parse_products example_runtime example_config mugs_net
     (ascii ''https://shop.example/mugs?sort_by=price_asc'') (clock initial_state)
   = (Inr [mug ''Blue ceramic mug'' ''/p/1'' (Fin 5),
           mug ''Red ceramic mug'' ''/p/2'' (nearest_double 999 100),
           mug ''Green ceramic mug'' ''/p/3'' (nearest_double 1001 100)], Suc (clock initial_state)) \<and>
   fst (fst (scan_pages example_runtime example_config mugs_net
     [ascii ''https://shop.example/mugs?sort_by=price_asc''] 0 0 initial_state)) = 2"
proof -
  let ?products = "[mug ''Blue ceramic mug'' ''/p/1'' (Fin 5),
           mug ''Red ceramic mug'' ''/p/2'' (nearest_double 999 100),
           mug ''Green ceramic mug'' ''/p/3'' (nearest_double 1001 100)]"
  have len: "length (filter (\<lambda>p. float_le (price p) (max_price example_config)) ?products) = 2"
    by (simp add: mug_def example_config_def double_9_99 double_10_01)
  from threshold_inclusive [where st = initial_state and checked = 0 and found = 0,
      OF mugs_products]
  obtain found' sent st' where
    "scan_pages example_runtime example_config mugs_net
       [ascii ''https://shop.example/mugs?sort_by=price_asc''] 0 0 initial_state
     = ((0 + length (filter (\<lambda>p. float_le (price p) (max_price example_config)) ?products),
         found', False), st')"
    by blast
  then have "fst (fst (scan_pages example_runtime example_config mugs_net
       [ascii ''https://shop.example/mugs?sort_by=price_asc''] 0 0 initial_state)) = 2"
    by (simp only: fst_conv len add_0)
  with mugs_products show ?thesis by blast
qed

subsection \<open>A category that cannot be fetched\<close>

lemma request_attempts_all_fail:
  "0 < n \<Longrightarrow> \<forall>k < n. net (t + k) u = RequestException \<Longrightarrow>
   request_attempts net u n t = (Inr None, t + n)"
proof (induction n arbitrary: t)
  case 0
  then show ?case by simp
next
  case (Suc n)
  from Suc.prems have now: "net t u = RequestException"
    by (metis add.right_neutral zero_less_Suc)
  show ?case
  proof (cases "n = 0")
    case True
    with now show ?thesis by simp
  next
    case False
    have "\<forall>k < n. net (Suc t + k) u = RequestException"
      using Suc.prems(2) by (metis Suc_less_eq add_Suc_shift)
    with False Suc.IH [of "Suc t"] now show ?thesis by simp
  qed
qed

lemma make_request_all_fail:
  "\<forall>k < 3. net (t + k) u = RequestException \<Longrightarrow> make_request net u t = (Inr None, t + 3)"
  unfolding make_request_def by (rule request_attempts_all_fail) simp_all

lemma scan_category_unreachable:
  assumes "\<forall>k < 6. net (clock st + k) (sorted_url category_url) = RequestException"
  shows "scan_category rt cfg net category_url st = ((0, 0, False), st\<lparr>clock := clock st + 6\<rparr>)"
proof -
  have 1: "make_request net (sorted_url category_url) (clock st) = (Inr None, clock st + 3)"
    using assms by (intro make_request_all_fail) simp
  have "\<forall>k < 3. net (clock st + 3 + k) (sorted_url category_url) = RequestException"
    using assms by (simp add: add.assoc)
  then have 2: "make_request net (sorted_url category_url) (clock st + 3)
                  = (Inr None, clock st + 3 + 3)"
    by (rule make_request_all_fail)
  show ?thesis
    by (simp add: scan_category_def get_all_pages_def 1 parse_products_def 2
        filtered_products_def)
qed

text \<open>
  The error flag of a category is set only when \<open>parse_products\<close> raised on one of its
  pages.
\<close>

lemma scan_pages_error_flag:
  "scan_pages rt cfg net pages c f st = ((c', f', True), st') \<Longrightarrow>
   \<exists>u \<in> set pages. \<exists>t e. fst (parse_products rt cfg net u t) = Inl e"
proof (induction pages arbitrary: c f st)
  case Nil
  then show ?case by simp
next
  case (Cons page_url rest)
  show ?case
  proof (cases "fst (parse_products rt cfg net page_url (clock st))")
    case (Inl e)
    then show ?thesis by auto
  next
    case (Inr products)
    with Cons.prems obtain c1 f1 st1 where
      "scan_pages rt cfg net rest c1 f1 st1 = ((c', f', True), st')"
      by (auto split: prod.splits sum.splits)
    from Cons.IH [OF this] show ?thesis by auto
  qed
qed

text \<open>
  Claim C3, as the code has it. When every attempt to fetch the first page of a category
  fails with a \<open>RequestException\<close> (three attempts for the pagination, three for the
  products), \<open>make_request\<close> returns \<open>None\<close> both times, no exception reaches
  \<open>scan_category\<close>, and its result is \<open>(0, 0, False)\<close>: the category adds nothing to
  the checked, found and error counts, and the set of seen keys and the alerts are as
  before.
\<close>

theorem unreachable_category_outcome:
  assumes "\<forall>k < 6. net (clock st + k) (sorted_url category_url) = RequestException"
  shows "scan_category rt cfg net category_url st = ((0, 0, False), st\<lparr>clock := clock st + 6\<rparr>) \<and>
         add_outcome totals (Inr (fst (scan_category rt cfg net category_url st))) = totals"
  using scan_category_unreachable [where net = net and st = st and rt = rt and cfg = cfg,
      OF assms]
  by (cases totals) simp

theorem unreachable_category_outcome_witness:
  "net_down 0 (sorted_url (ascii ''https://shop.example/phones'')) = RequestException \<and>
   net_down 5 (sorted_url (ascii ''https://shop.example/phones'')) = RequestException \<and>
   scan_category example_runtime example_config net_down (ascii ''https://shop.example/phones'')
     initial_state = ((0, 0, False), initial_state\<lparr>clock := 6\<rparr>) \<and>
   add_outcome (4, 2, 1) (Inr (fst (scan_category example_runtime example_config net_down
       (ascii ''https://shop.example/phones'') initial_state))) = (4, 2, 1)"
  using unreachable_category_outcome [where st = initial_state and net = net_down
      and category_url = "ascii ''https://shop.example/phones''"
      and rt = example_runtime and cfg = example_config and totals = "(4, 2, 1)"]
  by (simp add: net_down_def initial_state_def)

text \<open>
  Claim C3 fails on a network that is down: the outcome of the category has the error flag
  \<open>False\<close>, and the totals over this one category count no category with errors.
\<close>

theorem unreachable_category_counterexample:
  "fst (scan_category example_runtime example_config net_down
          (ascii ''https://shop.example/phones'') initial_state) = (0, 0, False) \<and>
   aggregate [Inr (fst (scan_category example_runtime example_config net_down
                (ascii ''https://shop.example/phones'') initial_state))] = (0, 0, 0)"
  using scan_category_unreachable [where st = initial_state and net = net_down
      and category_url = "ascii ''https://shop.example/phones''"
      and rt = example_runtime and cfg = example_config]
  by (simp add: net_down_def aggregate_def)

end
